theory Spec2Isabelle
  imports Main "HOL-Library.AList"
begin

section \<open>Values, documents and the document store\<close>

text \<open>
  The handlers of \<^verbatim>\<open>main.py\<close> work on plain dictionaries that travel to and from a
  MongoDB database. A value of a dictionary is one of the kinds the program stores:
  \<^verbatim>\<open>None\<close>, a boolean, a string, an \<^verbatim>\<open>ObjectId\<close>, a \<^verbatim>\<open>datetime\<close>, a list or a
  nested dictionary. A \<^verbatim>\<open>datetime\<close> in a document is a number of milliseconds, which is
  all a BSON date keeps. An \<^verbatim>\<open>ObjectId\<close> is the number its 12 bytes encode.
\<close>

type_synonym oid = nat

datatype bson =
    BNull
  | BBool bool
  | BStr string
  | BOid oid
  | BDate nat
  | BArr "bson list"
  | BSub "(string \<times> bson) list"

type_synonym pydict = "(string \<times> bson) list"

text \<open>
  A reading of \<^verbatim>\<open>datetime.now(timezone.utc)\<close> is a number of microseconds. On its way into
  the store the driver encodes it as milliseconds and drops the rest, so two readings
  within one millisecond are stored as the same value.
\<close>

definition datetime :: "nat \<Rightarrow> bson" where
  "datetime reading = BDate (reading div 1000)"

text \<open>
  A stored document always carries the key \<^verbatim>\<open>_id\<close>. Every document of this program is
  inserted without one, so the store assigns an \<^verbatim>\<open>ObjectId\<close>: the identifier is kept
  apart from the other keys, with its type.
\<close>

record document =
  ident :: oid
  doc_fields :: pydict

text \<open>\<^verbatim>\<open>d.get(k)\<close> and \<^verbatim>\<open>d.get(k, default)\<close> on a dictionary.\<close>

definition dict_get :: "pydict \<Rightarrow> string \<Rightarrow> bson" where
  "dict_get d k = (case map_of d k of None \<Rightarrow> BNull | Some v \<Rightarrow> v)"

definition dict_get_or :: "pydict \<Rightarrow> string \<Rightarrow> bson \<Rightarrow> bson" where
  "dict_get_or d k dflt = (case map_of d k of None \<Rightarrow> dflt | Some v \<Rightarrow> v)"

text \<open>A document read from the store, as the dictionary the driver returns.\<close>

definition as_dict :: "document \<Rightarrow> pydict" where
  "as_dict d = (''_id'', BOid (ident d)) # doc_fields d"

text \<open>Python's truth value of a stored value (\<^verbatim>\<open>not x\<close>, \<^verbatim>\<open>x or y\<close>).\<close>

fun truthy :: "bson \<Rightarrow> bool" where
  "truthy BNull = False"
| "truthy (BBool b) = b"
| "truthy (BStr s) = (s \<noteq> [])"
| "truthy (BOid i) = True"
| "truthy (BDate t) = True"
| "truthy (BArr xs) = (xs \<noteq> [])"
| "truthy (BSub kvs) = (kvs \<noteq> [])"

subsection \<open>Exceptions\<close>

text \<open>
  \<^verbatim>\<open>HTTPException(status_code, detail)\<close> is an ordinary exception class, so a blanket
  \<^verbatim>\<open>except Exception as e\<close> catches it like any other. The detail of a re-raised
  exception is \<^verbatim>\<open>str(e)\<close>: it is kept as the exception it was computed from.
  \<open>NotModelled\<close> is no exception of the program: it marks an input on which the model
  does not follow Python (the text of a \<^verbatim>\<open>datetime\<close>, list or dictionary, the
  format mini-language beyond plain names, and an identifier string of 24 characters
  with whitespace in it).
\<close>

datatype exn =
    HTTPException nat detail
  | InvalidId string
  | TypeError
  | StoreError
  | KeyError string
  | IndexError
  | ValueError
  | AttributeError
  | NotModelled
and detail = Text string | StrOf exn

text \<open>
  What the HTTP layer answers: the status of an \<^verbatim>\<open>HTTPException\<close>, and the generic
  500 for any exception that leaves a handler uncaught.
\<close>

fun http_status :: "exn \<Rightarrow> nat option" where
  "http_status (HTTPException code d) = Some code"
| "http_status NotModelled = None"
| "http_status e = Some 500"

subsection \<open>ObjectId\<close>

text \<open>
  \<^verbatim>\<open>str(oid)\<close> is the 24 lower-case hexadecimal digits of the identifier. \<^verbatim>\<open>ObjectId(s)\<close>
  accepts a string of 24 hexadecimal digits and raises \<^verbatim>\<open>InvalidId\<close> on a string of another
  length. A string of 24 characters goes through \<^verbatim>\<open>bytes.fromhex\<close>, which skips ASCII
  whitespace: with no whitespace in it, a character that is no hexadecimal digit raises
  \<^verbatim>\<open>InvalidId\<close>; with whitespace in it, the string is not modelled.
\<close>

definition hex_digit :: "nat \<Rightarrow> char" where
  "hex_digit d = ''0123456789abcdef'' ! (d mod 16)"

fun hex_of :: "nat \<Rightarrow> nat \<Rightarrow> string" where
  "hex_of 0 n = []"
| "hex_of (Suc k) n = hex_of k (n div 16) @ [hex_digit n]"

definition str_oid :: "oid \<Rightarrow> string" where
  "str_oid i = hex_of 24 i"

definition hex_val :: "char \<Rightarrow> nat option" where
  "hex_val c =
     (let n = (of_char c :: nat) in
      if 48 \<le> n \<and> n \<le> 57 then Some (n - 48)
      else if 97 \<le> n \<and> n \<le> 102 then Some (n - 87)
      else if 65 \<le> n \<and> n \<le> 70 then Some (n - 55)
      else None)"

fun parse_hex :: "nat \<Rightarrow> string \<Rightarrow> nat option" where
  "parse_hex acc [] = Some acc"
| "parse_hex acc (c # cs) =
     (case hex_val c of None \<Rightarrow> None | Some v \<Rightarrow> parse_hex (16 * acc + v) cs)"

definition ascii_whitespace :: "char \<Rightarrow> bool" where
  "ascii_whitespace c \<longleftrightarrow> c \<in> set [CHR 0x09, CHR 0x0A, CHR 0x0B, CHR 0x0C, CHR 0x0D, CHR 0x20]"

definition ObjectId :: "string \<Rightarrow> exn + oid" where
  "ObjectId s =
     (if length s = 24 then
        (case parse_hex 0 s of
           None \<Rightarrow> if list_ex ascii_whitespace s then Inl NotModelled else Inl (InvalidId s)
         | Some i \<Rightarrow> Inr i)
      else Inl (InvalidId s))"

subsection \<open>The database\<close>

text \<open>
  A database is its collections by name, each the list of its documents in the store's
  order (insertion order), and the supply of identifiers. The module-level \<^verbatim>\<open>db\<close> is
  \<^verbatim>\<open>None\<close> when no database was configured (\<^verbatim>\<open>if db is not None\<close> in \<^verbatim>\<open>test_database\<close>).
\<close>

record database =
  colls :: "string \<Rightarrow> document list"
  next_oid :: oid

type_synonym db = "database option"

text \<open>
  A query filter gives each key a condition: equality with a value, or \<^verbatim>\<open>{"$exists": b}\<close>.
  Equality holds for a field that is the value or an array holding it; equality with
  \<^verbatim>\<open>None\<close> also holds for a missing field.
\<close>

datatype cond = Eq bson | Exists bool

definition doc_field :: "document \<Rightarrow> string \<Rightarrow> bson option" where
  "doc_field d k = map_of (as_dict d) k"

fun holds :: "document \<Rightarrow> string \<times> cond \<Rightarrow> bool" where
  "holds d (k, Exists b) = ((doc_field d k \<noteq> None) = b)"
| "holds d (k, Eq v) =
     (case doc_field d k of
        None \<Rightarrow> v = BNull
      | Some (BArr xs) \<Rightarrow> BArr xs = v \<or> v \<in> set xs
      | Some w \<Rightarrow> w = v)"

definition matches :: "(string \<times> cond) list \<Rightarrow> document \<Rightarrow> bool" where
  "matches flt d = list_all (holds d) flt"

text \<open>\<^verbatim>\<open>collection.find_one(filter)\<close>: the first matching document, or \<^verbatim>\<open>None\<close>.\<close>

definition find_one :: "(string \<times> cond) list \<Rightarrow> document list \<Rightarrow> document option" where
  "find_one flt coll = find (matches flt) coll"

text \<open>
  \<^verbatim>\<open>collection.update_one(filter, {"$set": kvs})\<close>: the first matching document gets each
  key of \<open>kvs\<close> set (replaced in place, or added). The result carries \<^verbatim>\<open>matched_count\<close>
  and \<^verbatim>\<open>modified_count\<close>; the latter counts the document only if the update changed it.
\<close>

definition set_fields :: "pydict \<Rightarrow> document \<Rightarrow> document" where
  "set_fields kvs d = d\<lparr>doc_fields := fold (\<lambda>(k, v). AList.update k v) kvs (doc_fields d)\<rparr>"

fun update_first :: "(document \<Rightarrow> bool) \<Rightarrow> (document \<Rightarrow> document) \<Rightarrow> document list \<Rightarrow> document list" where
  "update_first P f [] = []"
| "update_first P f (d # ds) = (if P d then f d # ds else d # update_first P f ds)"

record update_result =
  matched_count :: nat
  modified_count :: nat

definition update_one ::
    "(string \<times> cond) list \<Rightarrow> pydict \<Rightarrow> document list \<Rightarrow> update_result \<times> document list" where
  "update_one flt kvs coll =
     (case find (matches flt) coll of
        None \<Rightarrow> (\<lparr>matched_count = 0, modified_count = 0\<rparr>, coll)
      | Some d \<Rightarrow>
          (\<lparr>matched_count = 1, modified_count = (if set_fields kvs d = d then 0 else 1)\<rparr>,
           update_first (matches flt) (set_fields kvs) coll))"

text \<open>
  Modelled from the spec: \<^verbatim>\<open>create_document\<close> of the module \<^verbatim>\<open>database\<close>, which is not among
  the sources. The spec calls the module a generic create/read adapter of a document
  database in which `each document has a store-assigned unique identifier'; \<^verbatim>\<open>main.py\<close>
  uses the result as the new document's id in text form. The call raises when no database
  is configured.
\<close>

definition create_document :: "string \<Rightarrow> pydict \<Rightarrow> db \<Rightarrow> (exn + string) \<times> db" where
  "create_document name data dbo =
     (case dbo of
        None \<Rightarrow> (Inl StoreError, None)
      | Some s \<Rightarrow>
          (Inr (str_oid (next_oid s)),
           Some (s\<lparr>colls := (colls s)(name := colls s name @ [\<lparr>ident = next_oid s, doc_fields = data\<rparr>]),
                   next_oid := Suc (next_oid s)\<rparr>)))"

text \<open>
  Modelled from the spec: \<^verbatim>\<open>get_documents\<close> of the module \<^verbatim>\<open>database\<close>, which is not among the
  sources. By the spec a lookup is to `retrieve up to 200 Query documents' for the limit
  200: \<^verbatim>\<open>get_documents(name, filter, limit)\<close> is the list of the first \<open>limit\<close> documents of
  the collection that match the filter, in the store's order. The call raises when no
  database is configured.
\<close>

definition get_documents :: "string \<Rightarrow> (string \<times> cond) list \<Rightarrow> nat \<Rightarrow> db \<Rightarrow> exn + document list" where
  "get_documents name flt limit dbo =
     (case dbo of
        None \<Rightarrow> Inl StoreError
      | Some s \<Rightarrow> Inr (take limit (filter (matches flt) (colls s name))))"

section \<open>The handlers\<close>

datatype response =
    ParseResp nat "string list"
  | PitchResp string string
  | DraftResp string string
  | ApproveResp bool
  | SendResp string

text \<open>
  \<^verbatim>\<open>try: ... except Exception as e: raise HTTPException(status_code=500, detail=str(e))\<close>:
  whatever the body raises, an \<^verbatim>\<open>HTTPException\<close> of the body included, leaves as a 500.
\<close>

definition except_500 :: "(exn + 'a) \<times> db \<Rightarrow> (exn + 'a) \<times> db" where
  "except_500 r =
     (case r of
        (Inl e, dbo) \<Rightarrow> (Inl (HTTPException 500 (StrOf e)), dbo)
      | (Inr x, dbo) \<Rightarrow> (Inr x, dbo))"

subsection \<open>POST /approve\<close>

record ApproveDraftRequest =
  draft_id :: string
  approved :: bool

text \<open>
  \<open>now\<close> is the reading of \<^verbatim>\<open>datetime.now(timezone.utc)\<close> during the call, in
  microseconds.
\<close>

definition approve_draft :: "nat \<Rightarrow> ApproveDraftRequest \<Rightarrow> db \<Rightarrow> (exn + response) \<times> db" where
  "approve_draft now req dbo =
     except_500
       (case dbo of
          None \<Rightarrow> (Inl TypeError, dbo)
        | Some s \<Rightarrow>
            (case ObjectId (draft_id req) of
               Inl e \<Rightarrow> (Inl e, dbo)
             | Inr i \<Rightarrow>
                 (let (result, coll) =
                        update_one [(''_id'', Eq (BOid i))]
                          [(''approved'', BBool (approved req)), (''updated_at'', datetime now)]
                          (colls s ''emaildraft'');
                      dbo' = Some (s\<lparr>colls := (colls s)(''emaildraft'' := coll)\<rparr>)
                  in if matched_count result = 0
                     then (Inl (HTTPException 404 (Text ''Draft not found'')), dbo')
                     else (Inr (ApproveResp (modified_count result \<noteq> 0)), dbo'))))"

subsection \<open>POST /send\<close>

record SendEmailRequest =
  draft_id_s :: string

text \<open>
  \<open>t_sent\<close> and \<open>t_upd\<close> are the two readings of \<^verbatim>\<open>datetime.now(timezone.utc)\<close>, for
  \<^verbatim>\<open>sent_at\<close> and for the query's \<^verbatim>\<open>updated_at\<close>. The query is looked up with the value
  stored under the draft's \<^verbatim>\<open>query_id\<close>, as it is.
\<close>

definition send_email :: "nat \<Rightarrow> nat \<Rightarrow> SendEmailRequest \<Rightarrow> db \<Rightarrow> (exn + response) \<times> db" where
  "send_email t_sent t_upd req dbo =
     except_500
       (case dbo of
          None \<Rightarrow> (Inl TypeError, dbo)
        | Some s \<Rightarrow>
            (case ObjectId (draft_id_s req) of
               Inl e \<Rightarrow> (Inl e, dbo)
             | Inr i \<Rightarrow>
                 (case find_one [(''_id'', Eq (BOid i))] (colls s ''emaildraft'') of
                    None \<Rightarrow> (Inl (HTTPException 404 (Text ''Draft not found'')), dbo)
                  | Some doc \<Rightarrow>
                      (let draft = as_dict doc in
                       if \<not> truthy (dict_get draft ''approved'')
                       then (Inl (HTTPException 400 (Text ''Draft not approved'')), dbo)
                       else
                         (let send_record =
                                [(''draft_id'', BStr (str_oid (ident doc))),
                                 (''to'', dict_get draft ''to_email''),
                                 (''subject'', dict_get draft ''subject''),
                                 (''body'', dict_get draft ''body''),
                                 (''sent_at'', datetime t_sent)]
                          in case create_document ''sent'' send_record dbo of
                               (Inl e, dbo1) \<Rightarrow> (Inl e, dbo1)
                             | (Inr sent_id, None) \<Rightarrow> (Inl TypeError, None)
                             | (Inr sent_id, Some s1) \<Rightarrow>
                                 (let (result, coll) =
                                        update_one [(''_id'', Eq (dict_get draft ''query_id''))]
                                          [(''status'', BStr ''sent''), (''updated_at'', datetime t_upd)]
                                          (colls s1 ''query'')
                                  in (Inr (SendResp sent_id),
                                      Some (s1\<lparr>colls := (colls s1)(''query'' := coll)\<rparr>))))))))"

subsection \<open>POST /parse\<close>

record ParseRequest =
  limit :: int

text \<open>\<^verbatim>\<open>str(n)\<close> of a natural number, for the f-strings.\<close>

fun str_nat :: "nat \<Rightarrow> string" where
  "str_nat n =
     (if n < 10 then [''0123456789'' ! n]
      else str_nat (n div 10) @ [''0123456789'' ! (n mod 10)])"

declare str_nat.simps [simp del]

text \<open>
  The item built for index \<open>i\<close> of \<^verbatim>\<open>range(req.limit)\<close>; \<open>now\<close> is read once, before the loop,
  and \<^verbatim>\<open>now.replace(microsecond=0)\<close> is the reading cut to the whole second.
\<close>

definition sample_item :: "nat \<Rightarrow> nat \<Rightarrow> pydict" where
  "sample_item now i =
     [(''subject'', BStr (''Call for psychology expert comment #'' @ str_nat (i + 1))),
      (''sender_email'', BStr (''editor'' @ str_nat (i + 1) @ ''@newsletter.com'')),
      (''sender_name'', BStr ''Newsletter Editor''),
      (''received_at'', datetime now),
      (''deadline'', datetime (now - now mod 1000000)),
      (''body_text'', BStr ''We're seeking a psychologist's perspective on workplace burnout and coping strategies.''),
      (''source_message_id'', BStr (''sim-'' @ str_nat (i + 1))),
      (''status'', BStr ''new''),
      (''tags'', BArr [BStr ''psych'', BStr ''newsletter''])]"

text \<open>
  The insertion loop: the first failing insert ends the call with a 500; the documents
  inserted before it stay.
\<close>

fun insert_items :: "pydict list \<Rightarrow> string list \<Rightarrow> db \<Rightarrow> (exn + string list) \<times> db" where
  "insert_items [] inserted_ids dbo = (Inr inserted_ids, dbo)"
| "insert_items (item # items) inserted_ids dbo =
     (case create_document ''query'' item dbo of
        (Inl e, dbo') \<Rightarrow> (Inl (HTTPException 500 (StrOf e)), dbo')
      | (Inr new_id, dbo') \<Rightarrow> insert_items items (inserted_ids @ [new_id]) dbo')"

definition parse_newsletters :: "nat \<Rightarrow> ParseRequest \<Rightarrow> db \<Rightarrow> (exn + response) \<times> db" where
  "parse_newsletters now req dbo =
     (let sample_items = map (sample_item now) [0 ..< nat (limit req)]
      in case insert_items sample_items [] dbo of
           (Inl e, dbo') \<Rightarrow> (Inl e, dbo')
         | (Inr inserted_ids, dbo') \<Rightarrow> (Inr (ParseResp (length inserted_ids) inserted_ids), dbo'))"

subsection \<open>Text of values and \<^verbatim>\<open>str.format\<close>\<close>

text \<open>
  \<^verbatim>\<open>str(v)\<close>, which is also what an f-string and \<^verbatim>\<open>format\<close> insert for a value with no
  format specification.
\<close>

fun py_str :: "bson \<Rightarrow> exn + string" where
  "py_str (BStr s) = Inr s"
| "py_str BNull = Inr ''None''"
| "py_str (BBool b) = Inr (if b then ''True'' else ''False'')"
| "py_str (BOid i) = Inr (str_oid i)"
| "py_str v = Inl NotModelled"

text \<open>
  A replacement field \<^verbatim>\<open>{name}\<close> of a call with keyword arguments only: a plain name is
  looked up among the keywords (\<^verbatim>\<open>KeyError\<close> when absent); an empty field asks for the
  first positional argument, and there is none (\<^verbatim>\<open>IndexError\<close>). Fields with a number,
  an attribute, an index, a conversion or a format specification are not modelled.
\<close>

definition get_value :: "string \<Rightarrow> pydict \<Rightarrow> exn + bson" where
  "get_value name kwargs =
     (if name = [] then Inl IndexError
      else if list_ex (\<lambda>c. c \<in> set ''{[].!:'') name \<or> list_all (\<lambda>c. c \<in> set ''0123456789'') name
      then Inl NotModelled
      else (case map_of kwargs name of None \<Rightarrow> Inl (KeyError name) | Some v \<Rightarrow> Inr v))"

definition emit :: "string \<Rightarrow> exn + string \<Rightarrow> exn + string" where
  "emit s r = (case r of Inl e \<Rightarrow> Inl e | Inr t \<Rightarrow> Inr (s @ t))"

text \<open>
  The scan of the template, left to right. The second argument is \<open>None\<close> in literal text
  and \<open>Some name\<close> inside a replacement field whose text so far is \<open>name\<close>. In literal
  text \<^verbatim>\<open>{{\<close> and \<^verbatim>\<open>}}\<close> stand for one brace; a single \<^verbatim>\<open>}\<close>, and a field that is not
  closed, raise \<^verbatim>\<open>ValueError\<close>. A field is rendered when its closing brace is read, before
  the rest of the template is looked at.
\<close>

fun fmt :: "pydict \<Rightarrow> string option \<Rightarrow> string \<Rightarrow> exn + string" where
  "fmt kwargs None [] = Inr []"
| "fmt kwargs (Some name) [] = Inl ValueError"
| "fmt kwargs None (c # cs) =
     (if c = CHR ''{'' then
        (case cs of
           [] \<Rightarrow> Inl ValueError
         | d # ds \<Rightarrow> if d = CHR ''{'' then emit ''{'' (fmt kwargs None ds) else fmt kwargs (Some []) cs)
      else if c = CHR ''}'' then
        (case cs of
           [] \<Rightarrow> Inl ValueError
         | d # ds \<Rightarrow> if d = CHR ''}'' then emit ''}'' (fmt kwargs None ds) else Inl ValueError)
      else emit [c] (fmt kwargs None cs))"
| "fmt kwargs (Some name) (c # cs) =
     (if c = CHR ''}'' then
        (case get_value name kwargs of
           Inl e \<Rightarrow> Inl e
         | Inr v \<Rightarrow> (case py_str v of Inl e \<Rightarrow> Inl e | Inr s \<Rightarrow> emit s (fmt kwargs None cs)))
      else fmt kwargs (Some (name @ [c])) cs)"

text \<open>\<^verbatim>\<open>template.format(**kwargs)\<close>; only a string has the method.\<close>

definition str_format :: "bson \<Rightarrow> pydict \<Rightarrow> exn + string" where
  "str_format template kwargs =
     (case template of BStr t \<Rightarrow> fmt kwargs None t | _ \<Rightarrow> Inl AttributeError)"

text \<open>\<^verbatim>\<open>"\n".join(lines)\<close>.\<close>

fun join_lines :: "string list \<Rightarrow> string" where
  "join_lines [] = []"
| "join_lines [l] = l"
| "join_lines (l # ls) = l @ ''\<newline>'' @ join_lines ls"

subsection \<open>POST /pitch and POST /draft\<close>

record GeneratePitchRequest =
  query_id :: string
  parameters :: pydict

definition pitch_default_style :: pydict where
  "pitch_default_style =
     [(''tone'', BStr ''friendly''),
      (''voice'', BStr ''First-person expert but approachable''),
      (''intro_template'', BStr ''Hi {name},\<newline>\<newline>Thanks for reaching out. I'm {your_name}, a {your_title}.''),
      (''signature_template'', BStr ''\<newline>\<newline>Best,\<newline>{your_name}\<newline>{your_title}\<newline>{your_website}''),
      (''your_name'', BStr ''Your Name''),
      (''your_title'', BStr ''Licensed Psychologist''),
      (''your_website'', BStr ''yourwebsite.com'')]"

text \<open>
  The query is looked for among the documents \<^verbatim>\<open>get_documents\<close> returns for the limit 200,
  by the text of its \<^verbatim>\<open>_id\<close>.
\<close>

definition find_query :: "string \<Rightarrow> document list \<Rightarrow> document option" where
  "find_query qid docs = find (\<lambda>d. py_str (dict_get (as_dict d) ''_id'') = Inr qid) docs"

definition generate_pitch :: "nat \<Rightarrow> GeneratePitchRequest \<Rightarrow> db \<Rightarrow> (exn + response) \<times> db" where
  "generate_pitch now req dbo =
     (case get_documents ''settings'' [] 1 dbo of
        Inl e \<Rightarrow> (Inl e, dbo)
      | Inr settings_docs \<Rightarrow>
     (let style = (case settings_docs of [] \<Rightarrow> pitch_default_style | d # _ \<Rightarrow> as_dict d) in
      case get_documents ''query'' [(''_id'', Exists True)] 200 dbo of
        Inl e \<Rightarrow> (Inl e, dbo)
      | Inr docs \<Rightarrow>
     (case find_query (query_id req) docs of
        None \<Rightarrow> (Inl (HTTPException 404 (Text ''Query not found'')), dbo)
      | Some target \<Rightarrow>
     (case py_str (dict_get_or (as_dict target) ''subject'' (BStr [])) of
        Inl e \<Rightarrow> (Inl e, dbo)
      | Inr subject \<Rightarrow>
     (let pitch_lines =
            [''Regarding: '' @ subject,
             [],
             ''Key points I can contribute:'',
             ''- Evidence-based insights on burnout and coping'',
             ''- Practical takeaways grounded in CBT and behavioral science'',
             ''- Availability for quick follow-up if needed''];
          pitch_lines =
            (if dict_get style ''tone'' = BStr ''formal''
             then pitch_lines @ [''I would be pleased to provide a concise, research-informed statement.'']
             else if dict_get style ''tone'' = BStr ''confident''
             then pitch_lines @ [''I regularly comment for national outlets and can deliver a crisp quote.'']
             else pitch_lines @ [''Happy to share a tight quote that serves your readers.'']);
          content = join_lines pitch_lines;
          doc = [(''query_id'', BStr (query_id req)),
                 (''content'', BStr content),
                 (''style_used'', BSub [(''tone'', dict_get style ''tone''), (''voice'', dict_get style ''voice'')]),
                 (''created_at'', datetime now)]
      in case create_document ''pitch'' doc dbo of
           (Inl e, dbo') \<Rightarrow> (Inl (HTTPException 500 (StrOf e)), dbo')
         | (Inr pitch_id, dbo') \<Rightarrow> (Inr (PitchResp pitch_id content), dbo'))))))"

definition draft_default_style :: pydict where
  "draft_default_style =
     [(''intro_template'', BStr ''Hi {name},\<newline>\<newline>Thanks for reaching out. I'm {your_name}, a {your_title}.''),
      (''signature_template'', BStr ''\<newline>\<newline>Best,\<newline>{your_name}\<newline>{your_title}\<newline>{your_website}''),
      (''your_name'', BStr ''Your Name''),
      (''your_title'', BStr ''Licensed Psychologist''),
      (''your_website'', BStr ''yourwebsite.com'')]"

definition draft_email :: "nat \<Rightarrow> GeneratePitchRequest \<Rightarrow> db \<Rightarrow> (exn + response) \<times> db" where
  "draft_email now req dbo =
     (case get_documents ''settings'' [] 1 dbo of
        Inl e \<Rightarrow> (Inl e, dbo)
      | Inr settings_docs \<Rightarrow>
     (let style = (case settings_docs of [] \<Rightarrow> draft_default_style | d # _ \<Rightarrow> as_dict d) in
      case get_documents ''query'' [(''_id'', Exists True)] 200 dbo of
        Inl e \<Rightarrow> (Inl e, dbo)
      | Inr docs \<Rightarrow>
     (case find_query (query_id req) docs of
        None \<Rightarrow> (Inl (HTTPException 404 (Text ''Query not found'')), dbo)
      | Some target \<Rightarrow>
     (case get_documents ''pitch'' [(''query_id'', Eq (BStr (query_id req)))] 1 dbo of
        Inl e \<Rightarrow> (Inl e, dbo)
      | Inr pitch_docs \<Rightarrow>
     (let pitch_content = (case pitch_docs of [] \<Rightarrow> BNull | p # _ \<Rightarrow> dict_get (as_dict p) ''content'');
          pitch_content =
            (if \<not> truthy pitch_content then BStr ''See below for my quick take: ...'' else pitch_content);
          name = (let v = dict_get (as_dict target) ''sender_name'' in if truthy v then v else BStr ''there'')
      in case str_format (dict_get_or style ''intro_template'' (BStr []))
                [(''name'', name),
                 (''your_name'', dict_get_or style ''your_name'' (BStr ''Your Name'')),
                 (''your_title'', dict_get_or style ''your_title'' (BStr ''Licensed Psychologist''))] of
           Inl e \<Rightarrow> (Inl e, dbo)
         | Inr intro \<Rightarrow>
     (case str_format (dict_get_or style ''signature_template'' (BStr []))
                [(''your_name'', dict_get_or style ''your_name'' (BStr ''Your Name'')),
                 (''your_title'', dict_get_or style ''your_title'' (BStr ''Licensed Psychologist'')),
                 (''your_website'', dict_get_or style ''your_website'' (BStr ''yourwebsite.com''))] of
           Inl e \<Rightarrow> (Inl e, dbo)
         | Inr signature \<Rightarrow>
     (case py_str pitch_content of
        Inl e \<Rightarrow> (Inl e, dbo)
      | Inr pitch_text \<Rightarrow>
     (let body = intro @ ''\<newline>\<newline>'' @ pitch_text @ signature;
          draft_doc = [(''query_id'', BStr (query_id req)),
                       (''to_email'', dict_get (as_dict target) ''sender_email''),
                       (''subject'', dict_get (as_dict target) ''subject''),
                       (''body'', BStr body),
                       (''approved'', BBool False),
                       (''created_at'', datetime now)]
      in case create_document ''emaildraft'' draft_doc dbo of
           (Inl e, dbo') \<Rightarrow> (Inl (HTTPException 500 (StrOf e)), dbo')
         | (Inr new_id, dbo') \<Rightarrow> (Inr (DraftResp new_id body), dbo')))))))))"

section \<open>A run of the pipeline\<close>

text \<open>
  The stores a first run of the service goes through: the empty database, the database
  after \<^verbatim>\<open>POST /parse\<close> with limit 1 (at 1000 microseconds), after \<^verbatim>\<open>POST /draft\<close> for the
  query created (at 2000), and after \<^verbatim>\<open>POST /approve\<close> of that draft (at 3000).
\<close>

definition empty_db :: database where
  "empty_db = \<lparr>colls = (\<lambda>_. []), next_oid = 0\<rparr>"

definition query0 :: document where
  "query0 = \<lparr>ident = 0, doc_fields = sample_item 1000 0\<rparr>"

definition parsed_db :: database where
  "parsed_db = \<lparr>colls = (\<lambda>_. [])(''query'' := [query0]), next_oid = 1\<rparr>"

definition draft1_body :: string where
  "draft1_body = ''Hi Newsletter Editor,\<newline>\<newline>Thanks for reaching out. I'm Your Name, a Licensed Psychologist.\<newline>\<newline>See below for my quick take: ...\<newline>\<newline>Best,\<newline>Your Name\<newline>Licensed Psychologist\<newline>yourwebsite.com''"

definition draft1 :: "bool \<Rightarrow> pydict \<Rightarrow> document" where
  "draft1 a extra =
     \<lparr>ident = 1,
      doc_fields =
        [(''query_id'', BStr ''000000000000000000000000''),
         (''to_email'', BStr ''editor1@newsletter.com''),
         (''subject'', BStr ''Call for psychology expert comment #1''),
         (''body'', BStr draft1_body),
         (''approved'', BBool a),
         (''created_at'', BDate 2)] @ extra\<rparr>"

definition drafted_db :: database where
  "drafted_db = \<lparr>colls = (\<lambda>_. [])(''query'' := [query0], ''emaildraft'' := [draft1 False []]), next_oid = 2\<rparr>"

definition approved_db :: database where
  "approved_db =
     \<lparr>colls = (\<lambda>_. [])(''query'' := [query0], ''emaildraft'' := [draft1 True [(''updated_at'', BDate 3)]]),
      next_oid = 2\<rparr>"

text \<open>
  Two further stores: the database of the run after \<^verbatim>\<open>POST /parse\<close>, with a settings
  document that asks for the formal tone; and a database holding 201 queries, as
  \<^verbatim>\<open>POST /parse\<close> with limit 201 leaves it.
\<close>

definition formal_db :: database where
  "formal_db =
     \<lparr>colls = (\<lambda>_. [])(''query'' := [query0],
                         ''settings'' := [\<lparr>ident = 1, doc_fields = [(''tone'', BStr ''formal'')]\<rparr>]),
      next_oid = 2\<rparr>"

definition many_queries_db :: database where
  "many_queries_db =
     \<lparr>colls = (\<lambda>_. [])(''query'' := map (\<lambda>i. \<lparr>ident = i, doc_fields = sample_item 1000 i\<rparr>) [0 ..< 201]),
      next_oid = 201\<rparr>"

text \<open>
  A database with the query of the spec's scenario and no settings, and the database of
  the run after \<^verbatim>\<open>POST /parse\<close> with a settings document whose intro template names a
  placeholder the program does not supply.
\<close>

definition jane_db :: database where
  "jane_db =
     \<lparr>colls = (\<lambda>_. [])(''query'' :=
        [\<lparr>ident = 0,
          doc_fields = [(''subject'', BStr ''Need psych expert''),
                        (''sender_name'', BStr ''Jane''),
                        (''sender_email'', BStr ''jane@x.com'')]\<rparr>]),
      next_oid = 1\<rparr>"

definition custom_db :: database where
  "custom_db =
     \<lparr>colls = (\<lambda>_. [])(''query'' := [query0],
                         ''settings'' :=
                           [\<lparr>ident = 1,
                             doc_fields = [(''intro_template'', BStr ''Hi {first_name},''),
                                           (''signature_template'', BStr ''Best, {your_name}'')]\<rparr>]),
      next_oid = 2\<rparr>"

text \<open>
  A field name that \<^verbatim>\<open>str.format\<close> looks up among the keyword arguments: not empty, no
  character of the field syntax, not a number.
\<close>

definition plain_name :: "string \<Rightarrow> bool" where
  "plain_name k \<longleftrightarrow> k \<noteq> [] \<and> \<not> list_ex (\<lambda>c. c \<in> set ''{}[].!:'') k \<and> \<not> list_all (\<lambda>c. c \<in> set ''0123456789'') k"

section \<open>Properties of the store operations\<close>

lemma matches_id_eq: "matches [(''_id'', Eq v)] d = (v = BOid (ident d))"
  by (auto simp: matches_def doc_field_def as_dict_def)

lemma matches_id_exists: "matches [(''_id'', Exists True)] d"
  by (simp add: matches_def doc_field_def as_dict_def)

lemma matches_nil: "matches [] d"
  by (simp add: matches_def)

lemma filter_id_exists: "filter (matches [(''_id'', Exists True)]) ds = ds"
  by (simp add: matches_id_exists)

lemma update_first_split:
  "find P xs = Some d \<Longrightarrow>
   \<exists>pre post. xs = pre @ d # post \<and> find P pre = None \<and> update_first P f xs = pre @ f d # post"
proof (induction xs)
  case Nil
  then show ?case by simp
next
  case (Cons x xs)
  show ?case
  proof (cases "P x")
    case True
    with Cons.prems have "x = d" by simp
    with True have "x # xs = [] @ d # xs \<and> find P [] = None \<and> update_first P f (x # xs) = [] @ f d # xs"
      by simp
    then show ?thesis by blast
  next
    case False
    with Cons.prems have "find P xs = Some d" by simp
    from Cons.IH [OF this] obtain pre post
      where "xs = pre @ d # post" "find P pre = None" "update_first P f xs = pre @ f d # post"
      by blast
    with False have "x # xs = (x # pre) @ d # post \<and> find P (x # pre) = None
        \<and> update_first P f (x # xs) = (x # pre) @ f d # post"
      by simp
    then show ?thesis by blast
  qed
qed

lemma find_Some_holds: "find P xs = Some d \<Longrightarrow> P d"
  by (induction xs) (auto split: if_splits)

lemma find_append_skip: "find P pre = None \<Longrightarrow> find P (pre @ ys) = find P ys"
  by (induction pre) (auto split: if_splits)

lemma update_eq_iff: "AList.update k v al = al \<longleftrightarrow> map_of al k = Some v"
  by (induction al) auto

lemma set_fields_ident: "ident (set_fields kvs d) = ident d"
  by (simp add: set_fields_def)

lemma set_fields_two:
  "doc_fields (set_fields [(k1, v1), (k2, v2)] d) = AList.update k2 v2 (AList.update k1 v1 (doc_fields d))"
  by (simp add: set_fields_def)

lemma set_fields_two_same:
  assumes "k1 \<noteq> k2"
  shows "set_fields [(k1, v1), (k2, v2)] d = d \<longleftrightarrow>
         map_of (doc_fields d) k1 = Some v1 \<and> map_of (doc_fields d) k2 = Some v2"
proof
  assume eq: "set_fields [(k1, v1), (k2, v2)] d = d"
  then have "doc_fields (set_fields [(k1, v1), (k2, v2)] d) = doc_fields d" by simp
  then have "map_of (AList.update k2 v2 (AList.update k1 v1 (doc_fields d))) = map_of (doc_fields d)"
    by (simp add: set_fields_two)
  then have m: "(map_of (doc_fields d))(k1 \<mapsto> v1, k2 \<mapsto> v2) = map_of (doc_fields d)"
    by (simp add: update_conv')
  from fun_cong [OF m, of k1] fun_cong [OF m, of k2] assms
  show "map_of (doc_fields d) k1 = Some v1 \<and> map_of (doc_fields d) k2 = Some v2"
    by auto
next
  assume "map_of (doc_fields d) k1 = Some v1 \<and> map_of (doc_fields d) k2 = Some v2"
  then show "set_fields [(k1, v1), (k2, v2)] d = d"
    by (simp add: set_fields_def update_eq_iff [THEN iffD2])
qed

section \<open>The approval gate\<close>

lemma matches_ident: "matches [(''_id'', Eq (BOid i))] d = (ident d = i)"
  by (auto simp: matches_id_eq)

lemma set_fields_approval:
  "map_of (doc_fields (set_fields [(''approved'', a), (''updated_at'', t)] d)) =
     (map_of (doc_fields d))(''approved'' \<mapsto> a, ''updated_at'' \<mapsto> t)"
  by (simp add: set_fields_two update_conv')

lemma approve_draft_found:
  assumes oid: "ObjectId (draft_id req) = Inr i"
      and found: "find_one [(''_id'', Eq (BOid i))] (colls s ''emaildraft'') = Some d"
  shows "\<exists>pre post.
           colls s ''emaildraft'' = pre @ d # post
         \<and> find (matches [(''_id'', Eq (BOid i))]) pre = None
         \<and> approve_draft now req (Some s) =
             (Inr (ApproveResp (set_fields [(''approved'', BBool (approved req)), (''updated_at'', datetime now)] d \<noteq> d)),
              Some (s\<lparr>colls := (colls s)(''emaildraft'' :=
                 pre @ set_fields [(''approved'', BBool (approved req)), (''updated_at'', datetime now)] d # post)\<rparr>))"
proof -
  let ?P = "matches [(''_id'', Eq (BOid i))]"
  let ?f = "set_fields [(''approved'', BBool (approved req)), (''updated_at'', datetime now)]"
  from found have f: "find ?P (colls s ''emaildraft'') = Some d"
    by (simp add: find_one_def)
  from update_first_split [OF f, of ?f] obtain pre post
    where sp: "colls s ''emaildraft'' = pre @ d # post" "find ?P pre = None"
      "update_first ?P ?f (colls s ''emaildraft'') = pre @ ?f d # post"
    by blast
  have "approve_draft now req (Some s) =
          (Inr (ApproveResp (?f d \<noteq> d)),
           Some (s\<lparr>colls := (colls s)(''emaildraft'' := pre @ ?f d # post)\<rparr>))"
    using oid f sp(3) by (simp add: approve_draft_def update_one_def except_500_def)
  with sp show ?thesis by blast
qed

text \<open>
  C10. A call of \<^verbatim>\<open>approve_draft\<close> that matches a stored draft \<open>d\<close> answers \<^verbatim>\<open>{"updated": u}\<close>
  and leaves the draft, at its place in the collection, with \<^verbatim>\<open>updated_at\<close> set to the
  clock reading of the call, as the store keeps it, and \<^verbatim>\<open>approved\<close> set to the requested value, whatever
  was stored before; its identifier and every other key are as they were, and so are all
  other documents and collections.
\<close>

theorem approve_draft_frame:
  assumes oid: "ObjectId (draft_id req) = Inr i"
      and found: "find_one [(''_id'', Eq (BOid i))] (colls s ''emaildraft'') = Some d"
  shows "\<exists>pre post d' u.
           colls s ''emaildraft'' = pre @ d # post
         \<and> approve_draft now req (Some s) =
             (Inr (ApproveResp u), Some (s\<lparr>colls := (colls s)(''emaildraft'' := pre @ d' # post)\<rparr>))
         \<and> ident d' = ident d
         \<and> map_of (doc_fields d') ''updated_at'' = Some (datetime now)
         \<and> map_of (doc_fields d') ''approved'' = Some (BBool (approved req))
         \<and> (\<forall>k. k \<noteq> ''approved'' \<and> k \<noteq> ''updated_at'' \<longrightarrow>
                map_of (doc_fields d') k = map_of (doc_fields d) k)"
proof -
  let ?f = "set_fields [(''approved'', BBool (approved req)), (''updated_at'', datetime now)]"
  from approve_draft_found [OF oid found, of now] obtain pre post
    where sp: "colls s ''emaildraft'' = pre @ d # post"
      and res: "approve_draft now req (Some s) =
          (Inr (ApproveResp (?f d \<noteq> d)),
           Some (s\<lparr>colls := (colls s)(''emaildraft'' := pre @ ?f d # post)\<rparr>))"
    by blast
  have "ident (?f d) = ident d" by (simp add: set_fields_ident)
  moreover have "map_of (doc_fields (?f d)) ''updated_at'' = Some (datetime now)"
    by (simp add: set_fields_approval)
  moreover have "map_of (doc_fields (?f d)) ''approved'' = Some (BBool (approved req))"
    by (simp add: set_fields_approval)
  moreover have "\<forall>k. k \<noteq> ''approved'' \<and> k \<noteq> ''updated_at'' \<longrightarrow>
      map_of (doc_fields (?f d)) k = map_of (doc_fields d) k"
    by (simp add: set_fields_approval)
  ultimately show ?thesis using sp res by blast
qed

section \<open>The run, evaluated\<close>

lemma hex_of_numeral: "hex_of (numeral k) n = hex_of (pred_numeral k) (n div 16) @ [hex_digit n]"
  unfolding numeral_eq_Suc [of k] by simp

lemma str_oid_0: "str_oid 0 = ''000000000000000000000000''"
  by (simp add: str_oid_def hex_of_numeral hex_digit_def)

lemma str_oid_1: "str_oid 1 = ''000000000000000000000001''"
  by (simp add: str_oid_def hex_of_numeral hex_digit_def)

lemma str_oid_Suc_0: "str_oid (Suc 0) = ''000000000000000000000001''"
  using str_oid_1 by simp

lemma ObjectId_1: "ObjectId ''000000000000000000000001'' = Inr 1"
  by (simp add: ObjectId_def hex_val_def)

lemma sample_item_0:
  "sample_item now 0 =
     [(''subject'', BStr ''Call for psychology expert comment #1''),
      (''sender_email'', BStr ''editor1@newsletter.com''),
      (''sender_name'', BStr ''Newsletter Editor''),
      (''received_at'', datetime now),
      (''deadline'', datetime (now - now mod 1000000)),
      (''body_text'', BStr ''We're seeking a psychologist's perspective on workplace burnout and coping strategies.''),
      (''source_message_id'', BStr ''sim-1''),
      (''status'', BStr ''new''),
      (''tags'', BArr [BStr ''psych'', BStr ''newsletter''])]"
  by (simp add: sample_item_def str_nat.simps)

lemma pipeline_parse:
  "parse_newsletters 1000 \<lparr>limit = 1\<rparr> (Some empty_db) =
     (Inr (ParseResp 1 [''000000000000000000000000'']), Some parsed_db)"
  by (simp add: parse_newsletters_def create_document_def empty_db_def parsed_db_def query0_def str_oid_0)


lemmas store_defs =
  datetime_def create_document_def get_documents_def find_query_def find_one_def update_one_def set_fields_def
  matches_def doc_field_def as_dict_def dict_get_def dict_get_or_def except_500_def

lemmas format_defs = str_format_def get_value_def emit_def

lemma pipeline_draft:
  "draft_email 2000 \<lparr>query_id = ''000000000000000000000000'', parameters = []\<rparr> (Some parsed_db) =
     (Inr (DraftResp ''000000000000000000000001'' draft1_body), Some drafted_db)"
  by (simp add: draft_email_def store_defs format_defs draft_default_style_def parsed_db_def
      drafted_db_def query0_def sample_item_0 draft1_def draft1_body_def str_oid_0 str_oid_Suc_0 Let_def)

lemma pipeline_approve:
  "approve_draft 3000 \<lparr>draft_id = ''000000000000000000000001'', approved = True\<rparr> (Some drafted_db) =
     (Inr (ApproveResp True), Some approved_db)"
  by (simp add: approve_draft_def store_defs ObjectId_1 drafted_db_def approved_db_def draft1_def Let_def)


lemma ObjectId_7: "ObjectId ''000000000000000000000007'' = Inr 7"
  by (simp add: ObjectId_def hex_val_def)

lemma str_oid_2: "str_oid 2 = ''000000000000000000000002''"
  by (simp add: str_oid_def hex_of_numeral hex_digit_def)

text \<open>
  C1. \<^verbatim>\<open>send_email\<close> on the approved draft of the run: the call succeeds and the \<^verbatim>\<open>sent\<close>
  collection holds exactly one record, copying \<^verbatim>\<open>to_email\<close>, \<^verbatim>\<open>subject\<close> and \<^verbatim>\<open>body\<close> of the
  draft and stamped with \<^verbatim>\<open>sent_at\<close>. The query the draft refers to keeps the status
  \<^verbatim>\<open>new\<close>: the update looks for a query whose \<^verbatim>\<open>_id\<close> is the string stored under
  \<^verbatim>\<open>query_id\<close>, and the \<^verbatim>\<open>_id\<close> of a query is an \<^verbatim>\<open>ObjectId\<close>.
\<close>

theorem send_email_approved_query_not_updated:
  "fst (send_email 4000 5000 \<lparr>draft_id_s = ''000000000000000000000001''\<rparr> (Some approved_db)) =
     Inr (SendResp ''000000000000000000000002'')
   \<and> map_option (\<lambda>s. colls s ''sent'') (snd (send_email 4000 5000 \<lparr>draft_id_s = ''000000000000000000000001''\<rparr> (Some approved_db))) =
     Some [\<lparr>ident = 2,
            doc_fields =
              [(''draft_id'', BStr ''000000000000000000000001''),
               (''to'', BStr ''editor1@newsletter.com''),
               (''subject'', BStr ''Call for psychology expert comment #1''),
               (''body'', BStr draft1_body),
               (''sent_at'', BDate 4)]\<rparr>]
   \<and> map_option (\<lambda>s. map (\<lambda>d. dict_get (as_dict d) ''status'') (colls s ''query''))
         (snd (send_email 4000 5000 \<lparr>draft_id_s = ''000000000000000000000001''\<rparr> (Some approved_db))) =
     Some [BStr ''new'']"
  by (simp add: send_email_def store_defs ObjectId_1 approved_db_def draft1_def query0_def
      sample_item_0 str_oid_Suc_0 str_oid_2 Let_def)

text \<open>
  C3. \<^verbatim>\<open>send_email\<close> on the draft of the run before its approval: the store is unchanged, so
  no record is added to \<^verbatim>\<open>sent\<close>, but the \<^verbatim>\<open>HTTPException\<close> with status 400 is raised inside
  the \<^verbatim>\<open>try\<close> block, and the blanket \<^verbatim>\<open>except Exception\<close> turns it into a 500.
\<close>

theorem send_email_unapproved_is_500:
  "send_email 4000 5000 \<lparr>draft_id_s = ''000000000000000000000001''\<rparr> (Some drafted_db) =
     (Inl (HTTPException 500 (StrOf (HTTPException 400 (Text ''Draft not approved'')))), Some drafted_db)"
  by (simp add: send_email_def store_defs ObjectId_1 drafted_db_def draft1_def Let_def)

text \<open>
  C4. \<^verbatim>\<open>approve_draft\<close> and \<^verbatim>\<open>send_email\<close> with a well-formed id that no stored draft has: in
  both the \<^verbatim>\<open>HTTPException\<close> with status 404 is raised inside the \<^verbatim>\<open>try\<close> block, and the
  blanket \<^verbatim>\<open>except Exception\<close> turns it into a 500.
\<close>

theorem missing_draft_is_500:
  "approve_draft 3000 \<lparr>draft_id = ''000000000000000000000007'', approved = True\<rparr> (Some drafted_db) =
     (Inl (HTTPException 500 (StrOf (HTTPException 404 (Text ''Draft not found'')))), Some drafted_db)
   \<and> send_email 4000 5000 \<lparr>draft_id_s = ''000000000000000000000007''\<rparr> (Some drafted_db) =
     (Inl (HTTPException 500 (StrOf (HTTPException 404 (Text ''Draft not found'')))), Some drafted_db)"
  by (simp add: approve_draft_def send_email_def store_defs ObjectId_7 drafted_db_def draft1_def Let_def)

text \<open>
  C2, as stated, fails: approving the draft of the run a second time, one millisecond
  later, answers \<^verbatim>\<open>{"updated": true}\<close>, because the second call changes \<^verbatim>\<open>updated_at\<close>.
\<close>

theorem approve_twice_counterexample:
  "fst (approve_draft 4000 \<lparr>draft_id = ''000000000000000000000001'', approved = True\<rparr>
         (snd (approve_draft 3000 \<lparr>draft_id = ''000000000000000000000001'', approved = True\<rparr> (Some drafted_db)))) =
     Inr (ApproveResp True)"
  by (simp add: pipeline_approve) (simp add: approve_draft_def store_defs ObjectId_1 approved_db_def draft1_def Let_def)

text \<open>
  Witness for C10: the first approval of the draft of the run, at 3000 microseconds.
\<close>

theorem approve_draft_frame_witness:
  "ObjectId (draft_id \<lparr>draft_id = ''000000000000000000000001'', approved = True\<rparr>) = Inr 1
   \<and> find_one [(''_id'', Eq (BOid 1))] (colls drafted_db ''emaildraft'') = Some (draft1 False [])
   \<and> (\<exists>pre post d' u.
           colls drafted_db ''emaildraft'' = pre @ draft1 False [] # post
         \<and> approve_draft 3000 \<lparr>draft_id = ''000000000000000000000001'', approved = True\<rparr> (Some drafted_db) =
             (Inr (ApproveResp u), Some (drafted_db\<lparr>colls := (colls drafted_db)(''emaildraft'' := pre @ d' # post)\<rparr>))
         \<and> ident d' = ident (draft1 False [])
         \<and> map_of (doc_fields d') ''updated_at'' = Some (datetime 3000)
         \<and> map_of (doc_fields d') ''approved'' = Some (BBool True)
         \<and> (\<forall>k. k \<noteq> ''approved'' \<and> k \<noteq> ''updated_at'' \<longrightarrow>
                map_of (doc_fields d') k = map_of (doc_fields (draft1 False [])) k))"
proof -
  have h1: "ObjectId (draft_id \<lparr>draft_id = ''000000000000000000000001'', approved = True\<rparr>) = Inr 1"
    by (simp add: ObjectId_1)
  have h2: "find_one [(''_id'', Eq (BOid 1))] (colls drafted_db ''emaildraft'') = Some (draft1 False [])"
    by (simp add: find_one_def matches_ident drafted_db_def draft1_def)
  from approve_draft_frame [OF h1 h2, of 3000] h1 h2 show ?thesis
    by simp
qed

section \<open>What \<^verbatim>\<open>updated\<close> reports\<close>

lemma approve_draft_updated:
  assumes oid: "ObjectId (draft_id req) = Inr i"
      and found: "find_one [(''_id'', Eq (BOid i))] (colls s ''emaildraft'') = Some d"
  shows "fst (approve_draft now req (Some s)) =
           Inr (ApproveResp (map_of (doc_fields d) ''approved'' \<noteq> Some (BBool (approved req))
                           \<or> map_of (doc_fields d) ''updated_at'' \<noteq> Some (datetime now)))"
proof -
  from approve_draft_found [OF oid found, of now]
  have "fst (approve_draft now req (Some s)) =
      Inr (ApproveResp (set_fields [(''approved'', BBool (approved req)), (''updated_at'', datetime now)] d \<noteq> d))"
    by auto
  then show ?thesis
    by (simp add: set_fields_two_same)
qed

lemma approve_draft_then_found:
  assumes oid: "ObjectId (draft_id req) = Inr i"
      and found: "find_one [(''_id'', Eq (BOid i))] (colls s ''emaildraft'') = Some d"
  shows "\<exists>s1 d1. snd (approve_draft now req (Some s)) = Some s1
           \<and> find_one [(''_id'', Eq (BOid i))] (colls s1 ''emaildraft'') = Some d1
           \<and> map_of (doc_fields d1) ''approved'' = Some (BBool (approved req))
           \<and> map_of (doc_fields d1) ''updated_at'' = Some (datetime now)"
proof -
  let ?P = "matches [(''_id'', Eq (BOid i))]"
  let ?d1 = "set_fields [(''approved'', BBool (approved req)), (''updated_at'', datetime now)] d"
  from approve_draft_found [OF oid found, of now] obtain pre post
    where pre: "find ?P pre = None"
      and res: "snd (approve_draft now req (Some s)) =
          Some (s\<lparr>colls := (colls s)(''emaildraft'' := pre @ ?d1 # post)\<rparr>)"
    by auto
  from found have "?P d" by (auto simp: find_one_def dest: find_Some_holds)
  then have "?P ?d1" by (simp add: matches_ident set_fields_ident)
  with pre have "find ?P (pre @ ?d1 # post) = Some ?d1"
    by (simp add: find_append_skip)
  then have "find_one [(''_id'', Eq (BOid i))]
      (colls (s\<lparr>colls := (colls s)(''emaildraft'' := pre @ ?d1 # post)\<rparr>) ''emaildraft'') = Some ?d1"
    by (simp add: find_one_def)
  moreover have "map_of (doc_fields ?d1) ''approved'' = Some (BBool (approved req))"
    "map_of (doc_fields ?d1) ''updated_at'' = Some (datetime now)"
    by (simp_all add: set_fields_approval)
  ultimately show ?thesis using res by blast
qed

text \<open>
  C2, amended. For a stored draft, \<^verbatim>\<open>updated\<close> tells whether the call changed the stored
  document, \<^verbatim>\<open>updated_at\<close> included. After an approval at the reading \<open>t1\<close>, in
  microseconds, a second approval with the same value at \<open>t2\<close> answers \<^verbatim>\<open>updated\<close> exactly when
  \<open>t2\<close> and \<open>t1\<close> fall in different milliseconds, which is the resolution at which the store
  keeps \<^verbatim>\<open>updated_at\<close>; two readings within one millisecond answer \<^verbatim>\<open>{"updated": false}\<close>. A
  call that withdraws the approval always answers \<^verbatim>\<open>{"updated": true}\<close>.
\<close>

theorem approve_draft_twice:
  assumes oid: "ObjectId x = Inr i"
      and found: "find_one [(''_id'', Eq (BOid i))] (colls s ''emaildraft'') = Some d"
  shows "fst (approve_draft t2 \<lparr>draft_id = x, approved = True\<rparr>
               (snd (approve_draft t1 \<lparr>draft_id = x, approved = True\<rparr> (Some s)))) =
           Inr (ApproveResp (t2 div 1000 \<noteq> t1 div 1000))
       \<and> fst (approve_draft t2 \<lparr>draft_id = x, approved = False\<rparr>
               (snd (approve_draft t1 \<lparr>draft_id = x, approved = True\<rparr> (Some s)))) =
           Inr (ApproveResp True)"
proof -
  have o1: "ObjectId (draft_id \<lparr>draft_id = x, approved = True\<rparr>) = Inr i"
    and o2: "ObjectId (draft_id \<lparr>draft_id = x, approved = False\<rparr>) = Inr i"
    using oid by simp_all
  from approve_draft_then_found [OF o1 found, of t1] obtain s1 d1
    where s1: "snd (approve_draft t1 \<lparr>draft_id = x, approved = True\<rparr> (Some s)) = Some s1"
      and f1: "find_one [(''_id'', Eq (BOid i))] (colls s1 ''emaildraft'') = Some d1"
      and a1: "map_of (doc_fields d1) ''approved'' = Some (BBool True)"
      and u1: "map_of (doc_fields d1) ''updated_at'' = Some (datetime t1)"
    by auto
  from approve_draft_updated [OF o1 f1, of t2] a1 u1
  have "fst (approve_draft t2 \<lparr>draft_id = x, approved = True\<rparr> (Some s1)) =
      Inr (ApproveResp (t2 div 1000 \<noteq> t1 div 1000))"
    by (auto simp: datetime_def)
  moreover from approve_draft_updated [OF o2 f1, of t2] a1 u1
  have "fst (approve_draft t2 \<lparr>draft_id = x, approved = False\<rparr> (Some s1)) = Inr (ApproveResp True)"
    by auto
  ultimately show ?thesis by (simp add: s1)
qed

text \<open>
  Witness for the amended C2, on the draft of the run: a second approval one millisecond
  later, a second approval 800 microseconds later within the same millisecond, and a
  withdrawal.
\<close>

theorem approve_draft_twice_witness:
  "ObjectId ''000000000000000000000001'' = Inr 1
   \<and> find_one [(''_id'', Eq (BOid 1))] (colls drafted_db ''emaildraft'') = Some (draft1 False [])
   \<and> fst (approve_draft 4000 \<lparr>draft_id = ''000000000000000000000001'', approved = True\<rparr>
               (snd (approve_draft 3000 \<lparr>draft_id = ''000000000000000000000001'', approved = True\<rparr> (Some drafted_db)))) =
           Inr (ApproveResp True)
   \<and> fst (approve_draft 3900 \<lparr>draft_id = ''000000000000000000000001'', approved = True\<rparr>
               (snd (approve_draft 3100 \<lparr>draft_id = ''000000000000000000000001'', approved = True\<rparr> (Some drafted_db)))) =
           Inr (ApproveResp False)
   \<and> fst (approve_draft 4000 \<lparr>draft_id = ''000000000000000000000001'', approved = False\<rparr>
               (snd (approve_draft 3000 \<lparr>draft_id = ''000000000000000000000001'', approved = True\<rparr> (Some drafted_db)))) =
           Inr (ApproveResp True)"
proof -
  have h1: "ObjectId ''000000000000000000000001'' = Inr 1"
    by (simp add: ObjectId_1)
  have h2: "find_one [(''_id'', Eq (BOid 1))] (colls drafted_db ''emaildraft'') = Some (draft1 False [])"
    by (simp add: find_one_def matches_ident drafted_db_def draft1_def)
  from approve_draft_twice [OF h1 h2, of 4000 3000] approve_draft_twice [OF h1 h2, of 3900 3100] h1 h2
  show ?thesis by simp
qed

section \<open>The query generator\<close>

lemma insert_items_Some:
  "insert_items items acc (Some s) =
     (Inr (acc @ map (\<lambda>(i, item). str_oid i) (enumerate (next_oid s) items)),
      Some (s\<lparr>colls := (colls s)(''query'' := colls s ''query'' @
                 map (\<lambda>(i, item). \<lparr>ident = i, doc_fields = item\<rparr>) (enumerate (next_oid s) items)),
              next_oid := next_oid s + length items\<rparr>))"
proof (induction items arbitrary: acc s)
  case Nil
  then show ?case by simp
next
  case (Cons item items)
  show ?case
    by (cases s) (simp add: create_document_def Cons.IH fun_eq_iff)
qed

lemma insert_items_None:
  "insert_items items acc None =
     (if items = [] then (Inr acc, None) else (Inl (HTTPException 500 (StrOf StoreError)), None))"
  by (cases items) (simp_all add: create_document_def)

lemma sample_item_status: "dict_get ((''_id'', v) # sample_item now j) ''status'' = BStr ''new''"
  by (simp add: sample_item_def dict_get_def)

text \<open>
  C7. A call of \<^verbatim>\<open>parse_newsletters\<close> with a limit of at least 0 that returns has appended
  exactly \<open>limit\<close> documents to the \<^verbatim>\<open>query\<close> collection, each with the status \<^verbatim>\<open>new\<close>, and
  answers their number and their ids in text form, in order; nothing else of the store
  changes. (Without a database the call can only return for the limit 0.)
\<close>

theorem parse_newsletters_creates:
  assumes lim: "0 \<le> limit req"
      and ok: "parse_newsletters now req dbo = (Inr resp, dbo')"
  shows "\<exists>new. int (length new) = limit req
           \<and> (\<forall>d \<in> set new. dict_get (as_dict d) ''status'' = BStr ''new'')
           \<and> resp = ParseResp (length new) (map (\<lambda>d. str_oid (ident d)) new)
           \<and> (case dbo of
                 None \<Rightarrow> dbo' = None \<and> new = []
               | Some s \<Rightarrow>
                   dbo' = Some (s\<lparr>colls := (colls s)(''query'' := colls s ''query'' @ new),
                                  next_oid := next_oid s + length new\<rparr>))"
proof (cases dbo)
  case None
  with ok have "nat (limit req) = 0" "resp = ParseResp 0 []" "dbo' = None"
    by (auto simp: parse_newsletters_def insert_items_None Let_def split: if_splits)
  with lim None show ?thesis
    by (intro exI [of _ "[]"]) simp
next
  case (Some s)
  let ?items = "map (sample_item now) [0 ..< nat (limit req)]"
  let ?new = "map (\<lambda>(i, item). \<lparr>ident = i, doc_fields = item\<rparr>) (enumerate (next_oid s) ?items)"
  have len: "int (length ?new) = limit req"
    using lim by simp
  have st: "\<forall>d \<in> set ?new. dict_get (as_dict d) ''status'' = BStr ''new''"
    by (auto simp: as_dict_def sample_item_status dest!: in_set_enumerate_eq [THEN iffD1])
  have ids: "map (\<lambda>(i, item). str_oid i) (enumerate (next_oid s) ?items) = map (\<lambda>d. str_oid (ident d)) ?new"
    by (simp add: case_prod_unfold)
  from ok Some
  have r: "resp = ParseResp (nat (limit req)) (map (\<lambda>(i, item). str_oid i) (enumerate (next_oid s) ?items))"
    and d: "dbo' = Some (s\<lparr>colls := (colls s)(''query'' := colls s ''query'' @ ?new),
                           next_oid := next_oid s + nat (limit req)\<rparr>)"
    by (auto simp: parse_newsletters_def insert_items_Some Let_def)
  have l: "length ?new = nat (limit req)" by simp
  from r ids l have r': "resp = ParseResp (length ?new) (map (\<lambda>d. str_oid (ident d)) ?new)"
    by (simp only:)
  from d l have d': "dbo' = Some (s\<lparr>colls := (colls s)(''query'' := colls s ''query'' @ ?new),
                           next_oid := next_oid s + length ?new\<rparr>)"
    by (simp only:)
  show ?thesis
  proof (intro exI [of _ ?new] conjI)
    show "int (length ?new) = limit req" by (rule len)
    show "\<forall>d \<in> set ?new. dict_get (as_dict d) ''status'' = BStr ''new''" by (rule st)
    show "resp = ParseResp (length ?new) (map (\<lambda>d. str_oid (ident d)) ?new)" by (rule r')
    show "case dbo of
            None \<Rightarrow> dbo' = None \<and> ?new = []
          | Some s \<Rightarrow>
              dbo' = Some (s\<lparr>colls := (colls s)(''query'' := colls s ''query'' @ ?new),
                             next_oid := next_oid s + length ?new\<rparr>)"
      unfolding Some option.case by (rule d')
  qed
qed

text \<open>Witness for C7: the first step of the run, from the empty database.\<close>

theorem parse_newsletters_creates_witness:
  "0 \<le> limit \<lparr>limit = 1\<rparr>
   \<and> parse_newsletters 1000 \<lparr>limit = 1\<rparr> (Some empty_db) =
       (Inr (ParseResp 1 [''000000000000000000000000'']), Some parsed_db)
   \<and> (\<exists>new. int (length new) = limit \<lparr>limit = 1\<rparr>
           \<and> (\<forall>d \<in> set new. dict_get (as_dict d) ''status'' = BStr ''new'')
           \<and> ParseResp 1 [''000000000000000000000000''] = ParseResp (length new) (map (\<lambda>d. str_oid (ident d)) new)
           \<and> Some parsed_db = Some (empty_db\<lparr>colls := (colls empty_db)(''query'' := colls empty_db ''query'' @ new),
                                  next_oid := next_oid empty_db + length new\<rparr>))"
proof -
  have h1: "0 \<le> limit \<lparr>limit = 1\<rparr>" by simp
  from parse_newsletters_creates [OF h1 pipeline_parse] h1 pipeline_parse
  show ?thesis by simp
qed

section \<open>Identifiers in text form\<close>

lemma length_hex_of: "length (hex_of k n) = k"
  by (induction k arbitrary: n) simp_all

lemma less_numeral_cases: "(m::nat) < numeral k \<longleftrightarrow> m = pred_numeral k \<or> m < pred_numeral k"
  unfolding numeral_eq_Suc [of k] by auto
lemma hex_val_hex_digit: "hex_val (hex_digit d) = Some (d mod 16)"
proof -
  have "d mod 16 < 16" by simp
  then have "d mod 16 = 0 \<or> d mod 16 = 1 \<or> d mod 16 = 2 \<or> d mod 16 = 3 \<or> d mod 16 = 4 \<or> d mod 16 = 5
      \<or> d mod 16 = 6 \<or> d mod 16 = 7 \<or> d mod 16 = 8 \<or> d mod 16 = 9 \<or> d mod 16 = 10 \<or> d mod 16 = 11
      \<or> d mod 16 = 12 \<or> d mod 16 = 13 \<or> d mod 16 = 14 \<or> d mod 16 = 15"
    unfolding less_numeral_cases pred_numeral_simps BitM.simps by auto
  then show ?thesis
    by (elim disjE) (simp_all add: hex_digit_def hex_val_def)
qed

lemma parse_hex_snoc:
  "parse_hex acc (cs @ [c]) =
     (case parse_hex acc cs of
        None \<Rightarrow> None
      | Some a \<Rightarrow> (case hex_val c of None \<Rightarrow> None | Some v \<Rightarrow> Some (16 * a + v)))"
  by (induction cs arbitrary: acc) (simp_all split: option.splits)

lemma parse_hex_hex_of: "parse_hex acc (hex_of k n) = Some (acc * 16 ^ k + n mod 16 ^ k)"
proof (induction k arbitrary: n)
  case 0
  then show ?case by simp
next
  case (Suc k)
  have "n mod (16 * 16 ^ k) = 16 * (n div 16 mod 16 ^ k) + n mod 16"
    by (rule mod_mult2_eq)
  then show ?case
    by (simp add: parse_hex_snoc Suc.IH hex_val_hex_digit algebra_simps)
qed

lemma ObjectId_str_oid: "ObjectId (str_oid i) = Inr (i mod 16 ^ 24)"
  by (simp add: ObjectId_def str_oid_def length_hex_of parse_hex_hex_of)

lemma str_oid_inj: "i < 16 ^ 24 \<Longrightarrow> j < 16 ^ 24 \<Longrightarrow> str_oid i = str_oid j \<Longrightarrow> i = j"
proof -
  assume i: "i < 16 ^ 24" and j: "j < 16 ^ 24" and eq: "str_oid i = str_oid j"
  from eq have "ObjectId (str_oid i) = ObjectId (str_oid j)" by simp
  with i j show "i = j" by (simp add: ObjectId_str_oid)
qed

section \<open>The pitch composer\<close>

lemma get_documents_settings:
  "get_documents ''settings'' [] n (Some s) = Inr (take n (colls s ''settings''))"
  by (simp add: get_documents_def matches_nil)

lemma get_documents_query:
  "get_documents ''query'' [(''_id'', Exists True)] n (Some s) = Inr (take n (colls s ''query''))"
  by (simp add: get_documents_def filter_id_exists)

lemma find_query_ident: "find_query qid docs = find (\<lambda>d. str_oid (ident d) = qid) docs"
  by (simp add: find_query_def as_dict_def dict_get_def)

lemma join_lines_snoc: "ls \<noteq> [] \<Longrightarrow> join_lines (ls @ [l]) = join_lines ls @ ''\<newline>'' @ l"
  by (induction ls rule: join_lines.induct) simp_all

text \<open>
  C6. When the lookup finds the query, \<^verbatim>\<open>generate_pitch\<close> answers the fixed points followed by
  one closing sentence, chosen by the tone of the resolved settings (the first settings
  document, or the built-in defaults): the formal sentence for \<^verbatim>\<open>formal\<close>, the confident
  sentence for \<^verbatim>\<open>confident\<close>, and the fallback sentence for every other value, a missing
  tone and missing settings included.
\<close>

theorem generate_pitch_tone:
  assumes q: "find_query (query_id req) (take 200 (colls s ''query'')) = Some target"
      and subj: "py_str (dict_get_or (as_dict target) ''subject'' (BStr [])) = Inr subject"
      and style: "style = (case take 1 (colls s ''settings'') of [] \<Rightarrow> pitch_default_style | d # _ \<Rightarrow> as_dict d)"
      and points: "points = join_lines
             [''Regarding: '' @ subject,
              [],
              ''Key points I can contribute:'',
              ''- Evidence-based insights on burnout and coping'',
              ''- Practical takeaways grounded in CBT and behavioral science'',
              ''- Availability for quick follow-up if needed'']"
  shows "\<exists>content. fst (generate_pitch now req (Some s)) = Inr (PitchResp (str_oid (next_oid s)) content)
         \<and> (dict_get style ''tone'' = BStr ''formal'' \<longrightarrow>
              content = points @ ''\<newline>I would be pleased to provide a concise, research-informed statement.'')
         \<and> (dict_get style ''tone'' = BStr ''confident'' \<longrightarrow>
              content = points @ ''\<newline>I regularly comment for national outlets and can deliver a crisp quote.'')
         \<and> (dict_get style ''tone'' \<noteq> BStr ''formal'' \<and> dict_get style ''tone'' \<noteq> BStr ''confident'' \<longrightarrow>
              content = points @ ''\<newline>Happy to share a tight quote that serves your readers.'')
         \<and> (colls s ''settings'' = [] \<longrightarrow>
              content = points @ ''\<newline>Happy to share a tight quote that serves your readers.'')"
proof -
  let ?tone = "dict_get style ''tone''"
  let ?closing =
    "if ?tone = BStr ''formal''
     then ''I would be pleased to provide a concise, research-informed statement.''
     else if ?tone = BStr ''confident''
     then ''I regularly comment for national outlets and can deliver a crisp quote.''
     else ''Happy to share a tight quote that serves your readers.''"
  have st: "(case take (Suc 0) (colls s ''settings'') of [] \<Rightarrow> pitch_default_style | d # _ \<Rightarrow> as_dict d) = style"
    using style by simp
  have res: "fst (generate_pitch now req (Some s)) =
      Inr (PitchResp (str_oid (next_oid s)) (points @ ''\<newline>'' @ ?closing))"
    using q subj
    by (simp add: generate_pitch_def get_documents_settings get_documents_query create_document_def
        Let_def st points)
  have "colls s ''settings'' = [] \<Longrightarrow> ?tone = BStr ''friendly''"
    using style by (simp add: pitch_default_style_def dict_get_def)
  then have dflt: "colls s ''settings'' = [] \<longrightarrow>
      ?closing = ''Happy to share a tight quote that serves your readers.''"
    by simp
  from res dflt show ?thesis
    by (intro exI [of _ "points @ ''\<newline>'' @ ?closing"]) simp
qed


text \<open>Witness for C6: the formal tone, on the query of the run.\<close>

theorem generate_pitch_tone_witness:
  "find_query (query_id \<lparr>query_id = ''000000000000000000000000'', parameters = []\<rparr>)
       (take 200 (colls formal_db ''query'')) = Some query0
   \<and> py_str (dict_get_or (as_dict query0) ''subject'' (BStr [])) = Inr ''Call for psychology expert comment #1''
   \<and> fst (generate_pitch 2000 \<lparr>query_id = ''000000000000000000000000'', parameters = []\<rparr> (Some formal_db)) =
       Inr (PitchResp ''000000000000000000000002''
             ''Regarding: Call for psychology expert comment #1\<newline>\<newline>Key points I can contribute:\<newline>- Evidence-based insights on burnout and coping\<newline>- Practical takeaways grounded in CBT and behavioral science\<newline>- Availability for quick follow-up if needed\<newline>I would be pleased to provide a concise, research-informed statement.'')"
proof -
  have h1: "find_query (query_id \<lparr>query_id = ''000000000000000000000000'', parameters = []\<rparr>)
       (take 200 (colls formal_db ''query'')) = Some query0"
    by (simp add: find_query_ident formal_db_def query0_def str_oid_0)
  have h2: "py_str (dict_get_or (as_dict query0) ''subject'' (BStr [])) = Inr ''Call for psychology expert comment #1''"
    by (simp add: query0_def sample_item_0 as_dict_def dict_get_or_def)
  have tone: "dict_get (case take 1 (colls formal_db ''settings'') of [] \<Rightarrow> pitch_default_style | d # _ \<Rightarrow> as_dict d)
      ''tone'' = BStr ''formal''"
    by (simp add: formal_db_def as_dict_def dict_get_def)
  from generate_pitch_tone [OF h1 h2 refl refl, of 2000] tone h1 h2 show ?thesis
    by (auto simp: formal_db_def str_oid_2)
qed

text \<open>
  C9. The lookup of \<^verbatim>\<open>generate_pitch\<close> reads at most 200 query documents, the first 200 of the
  collection; when none of them has the requested id in text form, the call fails with
  the 404 \<^verbatim>\<open>Query not found\<close> and leaves the store as it was.
\<close>

theorem generate_pitch_lookup_ceiling:
  assumes "find_query (query_id req) (take 200 (colls s ''query'')) = None"
  shows "generate_pitch now req (Some s) = (Inl (HTTPException 404 (Text ''Query not found'')), Some s)
       \<and> (\<exists>docs. get_documents ''query'' [(''_id'', Exists True)] 200 (Some s) = Inr docs
             \<and> length docs \<le> 200 \<and> docs = take 200 (colls s ''query''))"
  using assms
  by (simp add: generate_pitch_def get_documents_settings get_documents_query Let_def)

lemma many_queries_first_200:
  "find_query (str_oid 200) (take 200 (colls many_queries_db ''query'')) = None"
proof -
  have "\<And>i. i < 200 \<Longrightarrow> str_oid i \<noteq> str_oid 200"
  proof
    fix i :: nat
    assume "i < 200" and "str_oid i = str_oid 200"
    then show False using str_oid_inj [of i 200] by simp
  qed
  then show ?thesis
    by (auto simp: find_query_ident many_queries_db_def take_map find_None_iff)
qed

lemma many_queries_last:
  "find_query (str_oid 200) (colls many_queries_db ''query'') =
     Some \<lparr>ident = 200, doc_fields = sample_item 1000 200\<rparr>"
proof -
  have split: "[0 ..< 201] = [0 ..< 200] @ [200::nat]"
    by (simp add: upt_rec_numeral [symmetric] upt_Suc_append [symmetric])
  have "\<And>i. i < 200 \<Longrightarrow> str_oid i \<noteq> str_oid 200"
  proof
    fix i :: nat
    assume "i < 200" and "str_oid i = str_oid 200"
    then show False using str_oid_inj [of i 200] by simp
  qed
  then have "find (\<lambda>d. str_oid (ident d) = str_oid 200)
      (map (\<lambda>i. \<lparr>ident = i, doc_fields = sample_item 1000 i\<rparr>) [0 ..< 200]) = None"
    by (auto simp: find_None_iff)
  then show ?thesis
    by (simp add: find_query_ident many_queries_db_def split find_append_skip)
qed

text \<open>
  Witness for C9: with 201 queries stored, the last one exists and is not found.
\<close>

theorem generate_pitch_lookup_ceiling_witness:
  "find_query (query_id \<lparr>query_id = str_oid 200, parameters = []\<rparr>)
       (take 200 (colls many_queries_db ''query'')) = None
   \<and> find_query (str_oid 200) (colls many_queries_db ''query'') =
       Some \<lparr>ident = 200, doc_fields = sample_item 1000 200\<rparr>
   \<and> length (colls many_queries_db ''query'') = 201
   \<and> generate_pitch 2000 \<lparr>query_id = str_oid 200, parameters = []\<rparr> (Some many_queries_db) =
       (Inl (HTTPException 404 (Text ''Query not found'')), Some many_queries_db)"
proof -
  have h: "find_query (query_id \<lparr>query_id = str_oid 200, parameters = []\<rparr>)
       (take 200 (colls many_queries_db ''query'')) = None"
    by (simp add: many_queries_first_200)
  have l: "length (colls many_queries_db ''query'') = 201"
    by (simp add: many_queries_db_def)
  from generate_pitch_lookup_ceiling [OF h, of 2000] h l many_queries_last show ?thesis
    by simp
qed

section \<open>The draft composer\<close>

lemma emit_append: "emit s (emit t r) = emit (s @ t) r"
  by (cases r) (simp_all add: emit_def)

lemma emit_Inl: "emit s (Inl e) = Inl e"
  by (simp add: emit_def)

lemma emit_Inr: "emit s (Inr t) = Inr (s @ t)"
  by (simp add: emit_def)

lemma fmt_in_field:
  "CHR ''}'' \<notin> set k \<Longrightarrow>
   fmt kwargs (Some acc) (k @ CHR ''}'' # post) =
     (case get_value (acc @ k) kwargs of
        Inl e \<Rightarrow> Inl e
      | Inr v \<Rightarrow> (case py_str v of Inl e \<Rightarrow> Inl e | Inr s \<Rightarrow> emit s (fmt kwargs None post)))"
  by (induction k arbitrary: acc) auto

lemma fmt_literal:
  "CHR ''{'' \<notin> set pre \<Longrightarrow> CHR ''}'' \<notin> set pre \<Longrightarrow>
   fmt kwargs None (pre @ rest) = emit pre (fmt kwargs None rest)"
proof (induction pre)
  case Nil
  show ?case by (cases "fmt kwargs None rest") (simp_all add: emit_def)
next
  case (Cons c pre)
  then show ?case by (auto simp: emit_append)
qed

lemma fmt_field:
  assumes pre: "CHR ''{'' \<notin> set pre" "CHR ''}'' \<notin> set pre"
      and k: "k \<noteq> []" "CHR ''{'' \<notin> set k" "CHR ''}'' \<notin> set k"
  shows "fmt kwargs None (pre @ CHR ''{'' # k @ CHR ''}'' # post) =
           emit pre
             (case get_value k kwargs of
                Inl e \<Rightarrow> Inl e
              | Inr v \<Rightarrow> (case py_str v of Inl e \<Rightarrow> Inl e | Inr s \<Rightarrow> emit s (fmt kwargs None post)))"
proof -
  from k obtain a k' where ak: "k = a # k'" "a \<noteq> CHR ''{''"
    by (cases k) auto
  have "fmt kwargs None (CHR ''{'' # k @ CHR ''}'' # post) = fmt kwargs (Some []) (k @ CHR ''}'' # post)"
    using ak by simp
  also have "\<dots> = (case get_value k kwargs of
                Inl e \<Rightarrow> Inl e
              | Inr v \<Rightarrow> (case py_str v of Inl e \<Rightarrow> Inl e | Inr s \<Rightarrow> emit s (fmt kwargs None post)))"
    using fmt_in_field [OF k(3), of kwargs "[]" post] by simp
  finally show ?thesis
    using fmt_literal [OF pre, of kwargs "CHR ''{'' # k @ CHR ''}'' # post"] by simp
qed

lemma get_value_missing:
  "plain_name k \<Longrightarrow> map_of kwargs k = None \<Longrightarrow> get_value k kwargs = Inl (KeyError k)"
  by (auto simp: plain_name_def get_value_def list_ex_iff)

lemma fmt_unknown_name:
  assumes pre: "CHR ''{'' \<notin> set pre" "CHR ''}'' \<notin> set pre"
      and k: "plain_name k" and miss: "map_of kwargs k = None"
  shows "fmt kwargs None (pre @ CHR ''{'' # k @ CHR ''}'' # post) = Inl (KeyError k)"
proof -
  from k have "k \<noteq> []" "CHR ''{'' \<notin> set k" "CHR ''}'' \<notin> set k"
    by (auto simp: plain_name_def list_ex_iff)
  from fmt_field [OF pre this] get_value_missing [OF k miss] show ?thesis
    by (simp add: emit_Inl)
qed


lemma emit_nil: "emit [] r = r"
  by (cases r) (simp_all add: emit_def)

lemma emit_eq_Inr: "emit s r = Inr t \<longleftrightarrow> (\<exists>u. r = Inr u \<and> t = s @ u)"
  by (cases r) (auto simp: emit_def)

lemma fmt_prefix:
  "fmt kwargs mode pre = Inr t \<Longrightarrow> fmt kwargs mode (pre @ rest) = emit t (fmt kwargs None rest)"
proof (induction kwargs mode pre arbitrary: t rule: fmt.induct)
  case (1 kwargs)
  then show ?case by (simp add: emit_nil)
next
  case (2 kwargs name)
  then show ?case by simp
next
  case (3 kwargs c cs)
  note prem = "3.prems"
  show ?case
  proof (cases "c = CHR ''{''")
    case ob: True
    show ?thesis
    proof (cases cs)
      case Nil
      with prem ob show ?thesis by simp
    next
      case (Cons d ds)
      show ?thesis
      proof (cases "d = CHR ''{''")
        case True
        with prem ob Cons obtain u where u: "fmt kwargs None ds = Inr u" "t = ''{'' @ u"
          by (auto simp: emit_eq_Inr)
        from "3.IH"(1) [OF ob Cons True u(1)]
        have "fmt kwargs None (ds @ rest) = emit u (fmt kwargs None rest)" .
        with ob Cons True u(2) show ?thesis by (simp add: emit_append)
      next
        case False
        with prem ob Cons have "fmt kwargs (Some []) cs = Inr t" by simp
        from "3.IH"(2) [OF ob Cons False this]
        have "fmt kwargs (Some []) (cs @ rest) = emit t (fmt kwargs None rest)" .
        with ob Cons False show ?thesis by simp
      qed
    qed
  next
    case nob: False
    show ?thesis
    proof (cases "c = CHR ''}''")
      case cb: True
      show ?thesis
      proof (cases cs)
        case Nil
        with prem nob cb show ?thesis by simp
      next
        case (Cons d ds)
        show ?thesis
        proof (cases "d = CHR ''}''")
          case True
          with prem nob cb Cons obtain u where u: "fmt kwargs None ds = Inr u" "t = ''}'' @ u"
            by (auto simp: emit_eq_Inr)
          from "3.IH"(3) [OF nob cb Cons True u(1)]
          have "fmt kwargs None (ds @ rest) = emit u (fmt kwargs None rest)" .
          with nob cb Cons True u(2) show ?thesis by (simp add: emit_append)
        next
          case False
          with prem nob cb Cons show ?thesis by simp
        qed
      qed
    next
      case ncb: False
      with prem nob obtain u where u: "fmt kwargs None cs = Inr u" "t = [c] @ u"
        by (auto simp: emit_eq_Inr)
      from "3.IH"(4) [OF nob ncb u(1)]
      have "fmt kwargs None (cs @ rest) = emit u (fmt kwargs None rest)" .
      with nob ncb u(2) show ?thesis by (simp add: emit_append)
    qed
  qed
next
  case (4 kwargs name c cs)
  then show ?case
    by (auto simp: emit_def split: if_splits sum.splits)
qed

lemma fmt_unknown_name_after:
  assumes pre: "fmt kwargs None pre = Inr t"
      and k: "plain_name k" and miss: "map_of kwargs k = None"
  shows "fmt kwargs None (pre @ CHR ''{'' # k @ CHR ''}'' # post) = Inl (KeyError k)"
proof -
  have "fmt kwargs None ([] @ CHR ''{'' # k @ CHR ''}'' # post) = Inl (KeyError k)"
    by (rule fmt_unknown_name [OF _ _ k miss]) simp_all
  with fmt_prefix [OF pre, of "CHR ''{'' # k @ CHR ''}'' # post"] show ?thesis
    by (simp add: emit_Inl)
qed

text \<open>
  C8. When the lookup finds the query, the body \<^verbatim>\<open>draft_email\<close> answers is the rendered intro
  template, a blank line, the pitch text and the rendered signature template. The name
  given to the intro template is the query's \<^verbatim>\<open>sender_name\<close>, or \<^verbatim>\<open>there\<close> when that is
  missing or empty; the pitch text is the content of the first stored pitch of the query,
  or the fixed sentence when there is none. With the built-in settings the intro reads
  \<^verbatim>\<open>Hi <name>,\<close>, a blank line and the thanks, and the signature ends the body.
\<close>

theorem draft_email_body:
  assumes q: "find_query (query_id req) (take 200 (colls s ''query'')) = Some target"
      and style: "style = (case take 1 (colls s ''settings'') of [] \<Rightarrow> draft_default_style | d # _ \<Rightarrow> as_dict d)"
      and name: "name = (if truthy (dict_get (as_dict target) ''sender_name'')
                         then dict_get (as_dict target) ''sender_name'' else BStr ''there'')"
      and pitch: "pitch = (case take 1 (filter (matches [(''query_id'', Eq (BStr (query_id req)))]) (colls s ''pitch'')) of
                             [] \<Rightarrow> BNull | p # _ \<Rightarrow> dict_get (as_dict p) ''content'')"
      and ptext: "py_str (if truthy pitch then pitch else BStr ''See below for my quick take: ...'') = Inr pitch_text"
      and intro: "str_format (dict_get_or style ''intro_template'' (BStr []))
                    [(''name'', name),
                     (''your_name'', dict_get_or style ''your_name'' (BStr ''Your Name'')),
                     (''your_title'', dict_get_or style ''your_title'' (BStr ''Licensed Psychologist''))] = Inr intro"
      and sig: "str_format (dict_get_or style ''signature_template'' (BStr []))
                    [(''your_name'', dict_get_or style ''your_name'' (BStr ''Your Name'')),
                     (''your_title'', dict_get_or style ''your_title'' (BStr ''Licensed Psychologist'')),
                     (''your_website'', dict_get_or style ''your_website'' (BStr ''yourwebsite.com''))] = Inr signature"
  shows "fst (draft_email now req (Some s)) =
           Inr (DraftResp (str_oid (next_oid s)) (intro @ ''\<newline>\<newline>'' @ pitch_text @ signature))
       \<and> (dict_get (as_dict target) ''sender_name'' = BNull \<or> dict_get (as_dict target) ''sender_name'' = BStr []
              \<longrightarrow> name = BStr ''there'')
       \<and> (colls s ''pitch'' = [] \<longrightarrow> pitch_text = ''See below for my quick take: ...'')
       \<and> (colls s ''settings'' = [] \<and> name = BStr nm \<longrightarrow>
              intro = ''Hi '' @ nm @ '',\<newline>\<newline>Thanks for reaching out. I'm Your Name, a Licensed Psychologist.''
            \<and> signature = ''\<newline>\<newline>Best,\<newline>Your Name\<newline>Licensed Psychologist\<newline>yourwebsite.com'')"
proof -
  have st: "(case take (Suc 0) (colls s ''settings'') of [] \<Rightarrow> draft_default_style | d # _ \<Rightarrow> as_dict d) = style"
    using style by simp
  have pt: "(case take (Suc 0) (filter (matches [(''query_id'', Eq (BStr (query_id req)))]) (colls s ''pitch'')) of
               [] \<Rightarrow> BNull | p # _ \<Rightarrow> dict_get (as_dict p) ''content'') = pitch"
    using pitch by simp
  have nm: "(if truthy (dict_get (as_dict target) ''sender_name'')
             then dict_get (as_dict target) ''sender_name'' else BStr ''there'') = name"
    using name by simp
  have g: "get_documents ''pitch'' [(''query_id'', Eq (BStr (query_id req)))] (Suc 0) (Some s) =
      Inr (take (Suc 0) (filter (matches [(''query_id'', Eq (BStr (query_id req)))]) (colls s ''pitch'')))"
    by (simp add: get_documents_def)
  have body: "fst (draft_email now req (Some s)) =
           Inr (DraftResp (str_oid (next_oid s)) (intro @ ''\<newline>\<newline>'' @ pitch_text @ signature))"
    using q ptext intro sig
    by (cases "truthy pitch")
       (simp_all add: draft_email_def get_documents_settings get_documents_query g create_document_def
          Let_def st pt nm)
  have there: "dict_get (as_dict target) ''sender_name'' = BNull \<or> dict_get (as_dict target) ''sender_name'' = BStr []
      \<longrightarrow> name = BStr ''there''"
    using name by auto
  have placeholder: "colls s ''pitch'' = [] \<longrightarrow> pitch_text = ''See below for my quick take: ...''"
    using pitch ptext by auto
  have dflt: "colls s ''settings'' = [] \<and> name = BStr nm \<longrightarrow>
              intro = ''Hi '' @ nm @ '',\<newline>\<newline>Thanks for reaching out. I'm Your Name, a Licensed Psychologist.''
            \<and> signature = ''\<newline>\<newline>Best,\<newline>Your Name\<newline>Licensed Psychologist\<newline>yourwebsite.com''"
  proof (intro impI, elim conjE)
    assume e: "colls s ''settings'' = []" and n: "name = BStr nm"
    from e style have d: "style = draft_default_style" by simp
    from intro have "Inr intro = Inr (''Hi '' @ nm @ '',\<newline>\<newline>Thanks for reaching out. I'm Your Name, a Licensed Psychologist.'')"
      unfolding d n
      by (simp add: draft_default_style_def dict_get_or_def str_format_def get_value_def emit_def)
    moreover from sig have "Inr signature = Inr ''\<newline>\<newline>Best,\<newline>Your Name\<newline>Licensed Psychologist\<newline>yourwebsite.com''"
      unfolding d
      by (simp add: draft_default_style_def dict_get_or_def str_format_def get_value_def emit_def)
    ultimately show "intro = ''Hi '' @ nm @ '',\<newline>\<newline>Thanks for reaching out. I'm Your Name, a Licensed Psychologist.''
            \<and> signature = ''\<newline>\<newline>Best,\<newline>Your Name\<newline>Licensed Psychologist\<newline>yourwebsite.com''"
      by simp
  qed
  from body there placeholder dflt show ?thesis by blast
qed


text \<open>
  Witness for C8: the scenario of the spec, the query of Jane with the built-in settings.
\<close>

theorem draft_email_body_witness:
  "find_query (query_id \<lparr>query_id = ''000000000000000000000000'', parameters = []\<rparr>)
       (take 200 (colls jane_db ''query'')) =
     Some \<lparr>ident = 0,
           doc_fields = [(''subject'', BStr ''Need psych expert''),
                         (''sender_name'', BStr ''Jane''),
                         (''sender_email'', BStr ''jane@x.com'')]\<rparr>
   \<and> colls jane_db ''settings'' = []
   \<and> colls jane_db ''pitch'' = []
   \<and> fst (draft_email 2000 \<lparr>query_id = ''000000000000000000000000'', parameters = []\<rparr> (Some jane_db)) =
       Inr (DraftResp ''000000000000000000000001''
             ''Hi Jane,\<newline>\<newline>Thanks for reaching out. I'm Your Name, a Licensed Psychologist.\<newline>\<newline>See below for my quick take: ...\<newline>\<newline>Best,\<newline>Your Name\<newline>Licensed Psychologist\<newline>yourwebsite.com'')"
proof -
  let ?req = "\<lparr>query_id = ''000000000000000000000000'', parameters = []\<rparr>"
  let ?target = "\<lparr>ident = 0,
           doc_fields = [(''subject'', BStr ''Need psych expert''),
                         (''sender_name'', BStr ''Jane''),
                         (''sender_email'', BStr ''jane@x.com'')]\<rparr>"
  have q: "find_query (query_id ?req) (take 200 (colls jane_db ''query'')) = Some ?target"
    by (simp add: find_query_ident jane_db_def str_oid_0)
  have e: "colls jane_db ''settings'' = []" "colls jane_db ''pitch'' = []"
    by (simp_all add: jane_db_def)
  have style: "draft_default_style =
      (case take 1 (colls jane_db ''settings'') of [] \<Rightarrow> draft_default_style | d # _ \<Rightarrow> as_dict d)"
    by (simp add: e)
  have name: "BStr ''Jane'' = (if truthy (dict_get (as_dict ?target) ''sender_name'')
                         then dict_get (as_dict ?target) ''sender_name'' else BStr ''there'')"
    by (simp add: as_dict_def dict_get_def)
  have pitch: "BNull = (case take 1 (filter (matches [(''query_id'', Eq (BStr (query_id ?req)))]) (colls jane_db ''pitch'')) of
                             [] \<Rightarrow> BNull | p # _ \<Rightarrow> dict_get (as_dict p) ''content'')"
    by (simp add: e)
  have ptext: "py_str (if truthy BNull then BNull else BStr ''See below for my quick take: ...'') =
      Inr ''See below for my quick take: ...''"
    by simp
  have intro: "str_format (dict_get_or draft_default_style ''intro_template'' (BStr []))
                    [(''name'', BStr ''Jane''),
                     (''your_name'', dict_get_or draft_default_style ''your_name'' (BStr ''Your Name'')),
                     (''your_title'', dict_get_or draft_default_style ''your_title'' (BStr ''Licensed Psychologist''))] =
      Inr ''Hi Jane,\<newline>\<newline>Thanks for reaching out. I'm Your Name, a Licensed Psychologist.''"
    by (simp add: draft_default_style_def dict_get_or_def str_format_def get_value_def emit_def)
  have sig: "str_format (dict_get_or draft_default_style ''signature_template'' (BStr []))
                    [(''your_name'', dict_get_or draft_default_style ''your_name'' (BStr ''Your Name'')),
                     (''your_title'', dict_get_or draft_default_style ''your_title'' (BStr ''Licensed Psychologist'')),
                     (''your_website'', dict_get_or draft_default_style ''your_website'' (BStr ''yourwebsite.com''))] =
      Inr ''\<newline>\<newline>Best,\<newline>Your Name\<newline>Licensed Psychologist\<newline>yourwebsite.com''"
    by (simp add: draft_default_style_def dict_get_or_def str_format_def get_value_def emit_def)
  have n: "next_oid jane_db = 1" by (simp add: jane_db_def)
  from draft_email_body [OF q style name pitch ptext intro sig, of 2000 "''Jane''"] q e n
  show ?thesis by (simp add: str_oid_Suc_0)
qed


text \<open>
  C5, amended. There is no \<^verbatim>\<open>TemplateError\<close>. When the lookup finds the query and the intro
  template has, after text that renders, a field with a plain name other than \<^verbatim>\<open>name\<close>,
  \<^verbatim>\<open>your_name\<close> and \<^verbatim>\<open>your_title\<close>, or the intro renders and the signature template has such
  a field with a name other than \<^verbatim>\<open>your_name\<close>, \<^verbatim>\<open>your_title\<close> and \<^verbatim>\<open>your_website\<close>, then
  \<^verbatim>\<open>draft_email\<close> raises \<^verbatim>\<open>KeyError\<close> for that name outside any handler, which the HTTP layer
  answers with the generic 500; the store is unchanged.
\<close>

theorem draft_email_unknown_placeholder:
  assumes q: "find_query (query_id req) (take 200 (colls s ''query'')) = Some target"
      and style: "style = (case take 1 (colls s ''settings'') of [] \<Rightarrow> draft_default_style | d # _ \<Rightarrow> as_dict d)"
      and kwi: "intro_kwargs =
                  [(''name'', if truthy (dict_get (as_dict target) ''sender_name'')
                               then dict_get (as_dict target) ''sender_name'' else BStr ''there''),
                   (''your_name'', dict_get_or style ''your_name'' (BStr ''Your Name'')),
                   (''your_title'', dict_get_or style ''your_title'' (BStr ''Licensed Psychologist''))]"
      and kws: "signature_kwargs =
                  [(''your_name'', dict_get_or style ''your_name'' (BStr ''Your Name'')),
                   (''your_title'', dict_get_or style ''your_title'' (BStr ''Licensed Psychologist'')),
                   (''your_website'', dict_get_or style ''your_website'' (BStr ''yourwebsite.com''))]"
      and k: "plain_name k"
      and tmpl:
        "(dict_get_or style ''intro_template'' (BStr []) = BStr (pre @ ''{'' @ k @ ''}'' @ post)
            \<and> fmt intro_kwargs None pre = Inr t
            \<and> k \<notin> {''name'', ''your_name'', ''your_title''})
         \<or> (str_format (dict_get_or style ''intro_template'' (BStr [])) intro_kwargs = Inr intro
            \<and> dict_get_or style ''signature_template'' (BStr []) = BStr (pre @ ''{'' @ k @ ''}'' @ post)
            \<and> fmt signature_kwargs None pre = Inr t
            \<and> k \<notin> {''your_name'', ''your_title'', ''your_website''})"
  shows "draft_email now req (Some s) = (Inl (KeyError k), Some s)
       \<and> http_status (KeyError k) = Some 500"
proof -
  have st: "(case take (Suc 0) (colls s ''settings'') of [] \<Rightarrow> draft_default_style | d # _ \<Rightarrow> as_dict d) = style"
    using style by simp
  have g: "\<And>flt. get_documents ''pitch'' flt (Suc 0) (Some s) =
      Inr (take (Suc 0) (filter (matches flt) (colls s ''pitch'')))"
    by (simp add: get_documents_def)
  from tmpl show ?thesis
  proof (elim disjE conjE)
    assume t: "dict_get_or style ''intro_template'' (BStr []) = BStr (pre @ ''{'' @ k @ ''}'' @ post)"
      and p: "fmt intro_kwargs None pre = Inr t"
      and nk: "k \<notin> {''name'', ''your_name'', ''your_title''}"
    from nk have "map_of intro_kwargs k = None" by (simp add: kwi)
    from fmt_unknown_name_after [OF p k this, of post]
    have "str_format (dict_get_or style ''intro_template'' (BStr [])) intro_kwargs = Inl (KeyError k)"
      by (simp add: t str_format_def)
    with q show ?thesis
      by (simp add: draft_email_def get_documents_settings get_documents_query g Let_def st kwi)
  next
    assume i: "str_format (dict_get_or style ''intro_template'' (BStr [])) intro_kwargs = Inr intro"
      and t: "dict_get_or style ''signature_template'' (BStr []) = BStr (pre @ ''{'' @ k @ ''}'' @ post)"
      and p: "fmt signature_kwargs None pre = Inr t"
      and nk: "k \<notin> {''your_name'', ''your_title'', ''your_website''}"
    from nk have "map_of signature_kwargs k = None" by (simp add: kws)
    from fmt_unknown_name_after [OF p k this, of post]
    have "str_format (dict_get_or style ''signature_template'' (BStr [])) signature_kwargs = Inl (KeyError k)"
      by (simp add: t str_format_def)
    with q i show ?thesis
      by (simp add: draft_email_def get_documents_settings get_documents_query g Let_def st kwi kws)
  qed
qed

text \<open>
  C5, as stated, fails: with the intro template \<^verbatim>\<open>Hi {first_name},\<close> the call ends in an
  uncaught \<^verbatim>\<open>KeyError\<close>, that is the generic 500.
\<close>

theorem draft_email_unknown_placeholder_counterexample:
  "draft_email 2000 \<lparr>query_id = ''000000000000000000000000'', parameters = []\<rparr> (Some custom_db) =
     (Inl (KeyError ''first_name''), Some custom_db)
   \<and> http_status (KeyError ''first_name'') = Some 500"
  by (simp add: draft_email_def store_defs format_defs custom_db_def query0_def sample_item_0
      str_oid_0 Let_def)


text \<open>
  Witness for the amended C5, on the same store: the unknown name comes after the
  literal text \<^verbatim>\<open>Hi \<close>.
\<close>

theorem draft_email_unknown_placeholder_witness:
  "find_query (query_id \<lparr>query_id = ''000000000000000000000000'', parameters = []\<rparr>)
       (take 200 (colls custom_db ''query'')) = Some query0
   \<and> plain_name ''first_name''
   \<and> dict_get_or (case take 1 (colls custom_db ''settings'') of [] \<Rightarrow> draft_default_style | d # _ \<Rightarrow> as_dict d)
         ''intro_template'' (BStr []) = BStr (''Hi '' @ ''{'' @ ''first_name'' @ ''}'' @ '','')
   \<and> draft_email 2000 \<lparr>query_id = ''000000000000000000000000'', parameters = []\<rparr> (Some custom_db) =
       (Inl (KeyError ''first_name''), Some custom_db)
   \<and> http_status (KeyError ''first_name'') = Some 500"
proof -
  let ?req = "\<lparr>query_id = ''000000000000000000000000'', parameters = []\<rparr>"
  let ?style = "case take 1 (colls custom_db ''settings'') of [] \<Rightarrow> draft_default_style | d # _ \<Rightarrow> as_dict d"
  let ?kwi = "[(''name'', if truthy (dict_get (as_dict query0) ''sender_name'')
                          then dict_get (as_dict query0) ''sender_name'' else BStr ''there''),
               (''your_name'', dict_get_or ?style ''your_name'' (BStr ''Your Name'')),
               (''your_title'', dict_get_or ?style ''your_title'' (BStr ''Licensed Psychologist''))]"
  let ?kws = "[(''your_name'', dict_get_or ?style ''your_name'' (BStr ''Your Name'')),
               (''your_title'', dict_get_or ?style ''your_title'' (BStr ''Licensed Psychologist'')),
               (''your_website'', dict_get_or ?style ''your_website'' (BStr ''yourwebsite.com''))]"
  have q: "find_query (query_id ?req) (take 200 (colls custom_db ''query'')) = Some query0"
    by (simp add: find_query_ident custom_db_def query0_def str_oid_0)
  have k: "plain_name ''first_name''"
    by (simp add: plain_name_def)
  have t: "dict_get_or ?style ''intro_template'' (BStr []) = BStr (''Hi '' @ ''{'' @ ''first_name'' @ ''}'' @ '','')"
    by (simp add: custom_db_def as_dict_def dict_get_or_def)
  have p: "fmt ?kwi None ''Hi '' = Inr ''Hi ''"
    by (simp add: emit_def)
  have nk: "''first_name'' \<notin> {''name'', ''your_name'', ''your_title''}"
    by simp
  from t p nk have tmpl:
    "(dict_get_or ?style ''intro_template'' (BStr []) = BStr (''Hi '' @ ''{'' @ ''first_name'' @ ''}'' @ '','')
        \<and> fmt ?kwi None ''Hi '' = Inr ''Hi ''
        \<and> ''first_name'' \<notin> {''name'', ''your_name'', ''your_title''})
     \<or> (str_format (dict_get_or ?style ''intro_template'' (BStr [])) ?kwi = Inr []
        \<and> dict_get_or ?style ''signature_template'' (BStr []) = BStr (''Hi '' @ ''{'' @ ''first_name'' @ ''}'' @ '','')
        \<and> fmt ?kws None ''Hi '' = Inr ''Hi ''
        \<and> ''first_name'' \<notin> {''your_name'', ''your_title'', ''your_website''})"
    by blast
  from draft_email_unknown_placeholder [OF q refl refl refl k tmpl, of 2000] q k t
  show ?thesis by blast
qed

section \<open>Errors of the approval gate and the send simulator, in general\<close>

text \<open>
  The evaluations above are instances of what holds for every store. Whatever
  \<^verbatim>\<open>approve_draft\<close> and \<^verbatim>\<open>send_email\<close> raise reaches the client as a 500, the missing draft
  and the unapproved draft included; and \<^verbatim>\<open>send_email\<close> leaves the \<^verbatim>\<open>query\<close> collection as it
  was whenever the draft's \<^verbatim>\<open>query_id\<close> is a string, as every draft of \<^verbatim>\<open>draft_email\<close> has it.
\<close>

lemma except_500_error: "fst (except_500 r) = Inl e \<Longrightarrow> \<exists>x. e = HTTPException 500 (StrOf x)"
  by (auto simp: except_500_def split: prod.splits sum.splits)

lemma approve_draft_error_is_500: "fst (approve_draft now req dbo) = Inl e \<Longrightarrow> http_status e = Some 500"
  unfolding approve_draft_def by (drule except_500_error) auto

lemma send_email_error_is_500: "fst (send_email t_sent t_upd req dbo) = Inl e \<Longrightarrow> http_status e = Some 500"
  unfolding send_email_def by (drule except_500_error) auto

lemma update_one_no_match:
  "find (matches flt) coll = None \<Longrightarrow>
   update_one flt kvs coll = (\<lparr>matched_count = 0, modified_count = 0\<rparr>, coll)"
  by (simp add: update_one_def)

lemma approve_draft_missing_draft:
  assumes "ObjectId (draft_id req) = Inr i"
      and "find_one [(''_id'', Eq (BOid i))] (colls s ''emaildraft'') = None"
  shows "approve_draft now req (Some s) =
           (Inl (HTTPException 500 (StrOf (HTTPException 404 (Text ''Draft not found'')))), Some s)"
  using assms
  by (simp add: approve_draft_def find_one_def update_one_no_match except_500_def)

lemma send_email_missing_draft:
  assumes "ObjectId (draft_id_s req) = Inr i"
      and "find_one [(''_id'', Eq (BOid i))] (colls s ''emaildraft'') = None"
  shows "send_email t_sent t_upd req (Some s) =
           (Inl (HTTPException 500 (StrOf (HTTPException 404 (Text ''Draft not found'')))), Some s)"
  using assms by (simp add: send_email_def except_500_def)

lemma send_email_unapproved_draft:
  assumes "ObjectId (draft_id_s req) = Inr i"
      and "find_one [(''_id'', Eq (BOid i))] (colls s ''emaildraft'') = Some doc"
      and "\<not> truthy (dict_get (as_dict doc) ''approved'')"
  shows "send_email t_sent t_upd req (Some s) =
           (Inl (HTTPException 500 (StrOf (HTTPException 400 (Text ''Draft not approved'')))), Some s)"
  using assms by (simp add: send_email_def except_500_def Let_def)

lemma send_email_keeps_queries:
  assumes "ObjectId (draft_id_s req) = Inr i"
      and "find_one [(''_id'', Eq (BOid i))] (colls s ''emaildraft'') = Some doc"
      and "dict_get (as_dict doc) ''query_id'' = BStr x"
  shows "\<exists>s'. snd (send_email t_sent t_upd req (Some s)) = Some s' \<and> colls s' ''query'' = colls s ''query''"
proof -
  have "find (matches [(''_id'', Eq (BStr x))]) coll = None" for coll
    by (simp add: find_None_iff matches_id_eq)
  with assms show ?thesis
    by (cases "truthy (dict_get (as_dict doc) ''approved'')")
       (simp_all add: send_email_def except_500_def Let_def create_document_def update_one_no_match)
qed

end
